theory Spec2Isabelle
  imports Complex_Main
begin

section \<open>Tensors and the layers of the tensor library\<close>

text \<open>
  The module \<^verbatim>\<open>model_modules.py\<close> builds four-dimensional activation tensors
  (batch, channels, height, width) with the layers of \<^verbatim>\<open>torch.nn\<close>. A tensor is
  its four sizes and the value at every index; values are real numbers, the exact
  arithmetic that the floating-point numbers of the library approximate. Tensors of
  other ranks and the tracking of gradients are outside the model.

  The layers of the library are not part of the repository. They are modelled from
  the library's documentation: the output sizes, the failures on sizes that do not
  fit, and the arithmetic of the stateless layers. The constructors of the library
  record their arguments; the library's own validation of constructor arguments is
  outside the model.
\<close>

type_synonym vals = "nat \<Rightarrow> nat \<Rightarrow> nat \<Rightarrow> nat \<Rightarrow> real"

record tensor =
  dimN :: nat
  dimC :: nat
  dimH :: nat
  dimW :: nat
  val :: vals

datatype error =
    NotImplementedError string
  | RuntimeError
  | ValueError
  | AttributeError

definition and_then :: "error + 'a \<Rightarrow> ('a \<Rightarrow> error + 'b) \<Rightarrow> error + 'b" where
  "and_then r f = (case r of Inl e \<Rightarrow> Inl e | Inr v \<Rightarrow> f v)"

subsection \<open>Elementwise layers\<close>

definition pointwise :: "(real \<Rightarrow> real) \<Rightarrow> tensor \<Rightarrow> tensor" where
  "pointwise f x = x\<lparr>val := (\<lambda>n c h w. f (val x n c h w))\<rparr>"

definition leaky_relu :: "real \<Rightarrow> real \<Rightarrow> real" where
  "leaky_relu slope v = max 0 v + slope * min 0 v"

definition relu :: "real \<Rightarrow> real" where
  "relu v = max 0 v"

definition sigmoid :: "real \<Rightarrow> real" where
  "sigmoid v = 1 / (1 + exp (- v))"

text \<open>
  \<^verbatim>\<open>nn.LeakyReLU(negative_slope, inplace)\<close>. With \<^verbatim>\<open>inplace\<close> set the layer
  overwrites the tensor it is given and returns that same tensor, so the caller's
  variable changes too. The forward function returns the pair (the argument tensor
  as it stands after the call, the result).
\<close>

record LeakyReLU =
  negative_slope :: real
  inplace :: bool

definition LeakyReLU_init :: "real \<Rightarrow> bool \<Rightarrow> LeakyReLU" where
  "LeakyReLU_init slope inpl = \<lparr>negative_slope = slope, inplace = inpl\<rparr>"

definition LeakyReLU_forward :: "LeakyReLU \<Rightarrow> tensor \<Rightarrow> tensor \<times> tensor" where
  "LeakyReLU_forward a x =
     (if inplace a
      then (pointwise (leaky_relu (negative_slope a)) x, pointwise (leaky_relu (negative_slope a)) x)
      else (x, pointwise (leaky_relu (negative_slope a)) x))"

text \<open>\<^verbatim>\<open>nn.ReLU()\<close>, \<^verbatim>\<open>nn.Tanh()\<close> and \<^verbatim>\<open>nn.Sigmoid()\<close> return a new tensor.\<close>

definition ReLU_forward :: "tensor \<Rightarrow> tensor" where
  "ReLU_forward x = pointwise relu x"

definition Tanh_forward :: "tensor \<Rightarrow> tensor" where
  "Tanh_forward x = pointwise tanh x"

definition Sigmoid_forward :: "tensor \<Rightarrow> tensor" where
  "Sigmoid_forward x = pointwise sigmoid x"

subsection \<open>Concatenation along the channel axis\<close>

text \<open>
  \<^verbatim>\<open>torch.cat([a, b], 1)\<close>: the channels of \<open>a\<close> followed by the channels of
  \<open>b\<close>, in a new tensor; the other three sizes must agree.
\<close>

definition cat1 :: "tensor \<Rightarrow> tensor \<Rightarrow> error + tensor" where
  "cat1 a b =
     (if dimN a = dimN b \<and> dimH a = dimH b \<and> dimW a = dimW b
      then Inr \<lparr>dimN = dimN a, dimC = dimC a + dimC b, dimH = dimH a, dimW = dimW a,
                val = (\<lambda>n c h w. if c < dimC a then val a n c h w
                                  else val b n (c - dimC a) h w)\<rparr>
      else Inl RuntimeError)"

subsection \<open>Convolution and transposed convolution\<close>

text \<open>
  \<^verbatim>\<open>nn.Conv2d\<close> and \<^verbatim>\<open>nn.ConvTranspose2d\<close> with square kernels and equal
  stride, padding and dilation on both axes (the repository passes single integers).
  \<open>weight\<close> and \<open>bias\<close> are the layer's parameters; \<open>bias\<close> is \<open>None\<close> when the
  layer is built with \<^verbatim>\<open>bias=False\<close>.
\<close>

record ConvNd =
  in_channels :: nat
  out_channels :: nat
  kernel_size :: nat
  stride :: nat
  padding :: nat
  dilation :: nat
  groups :: nat
  weight :: vals
  bias :: "(nat \<Rightarrow> real) option"

definition Conv2d_init ::
  "vals \<Rightarrow> (nat \<Rightarrow> real) \<Rightarrow> nat \<Rightarrow> nat \<Rightarrow> nat \<Rightarrow> nat \<Rightarrow> nat \<Rightarrow> nat \<Rightarrow> nat \<Rightarrow> bool \<Rightarrow> ConvNd" where
  "Conv2d_init w0 b0 cin cout k s p d g use_bias =
     \<lparr>in_channels = cin, out_channels = cout, kernel_size = k, stride = s, padding = p,
      dilation = d, groups = g, weight = w0, bias = (if use_bias then Some b0 else None)\<rparr>"

text \<open>\<^verbatim>\<open>nn.ConvTranspose2d\<close> as the repository calls it: dilation 1, one group, no output padding.\<close>

definition ConvTranspose2d_init ::
  "vals \<Rightarrow> (nat \<Rightarrow> real) \<Rightarrow> nat \<Rightarrow> nat \<Rightarrow> nat \<Rightarrow> nat \<Rightarrow> nat \<Rightarrow> bool \<Rightarrow> ConvNd" where
  "ConvTranspose2d_init w0 b0 cin cout k s p use_bias =
     \<lparr>in_channels = cin, out_channels = cout, kernel_size = k, stride = s, padding = p,
      dilation = 1, groups = 1, weight = w0, bias = (if use_bias then Some b0 else None)\<rparr>"

definition bias_at :: "ConvNd \<Rightarrow> nat \<Rightarrow> real" where
  "bias_at m co = (case bias m of None \<Rightarrow> 0 | Some b \<Rightarrow> b co)"

text \<open>The input read at a position that may lie in the zero padding.\<close>

definition padded :: "tensor \<Rightarrow> nat \<Rightarrow> nat \<Rightarrow> int \<Rightarrow> int \<Rightarrow> real" where
  "padded x n c i j =
     (if 0 \<le> i \<and> i < int (dimH x) \<and> 0 \<le> j \<and> j < int (dimW x)
      then val x n c (nat i) (nat j) else 0)"

text \<open>Output size of a convolution along one axis: \<open>\<lfloor>(h + 2p - d(k-1) - 1) / s\<rfloor> + 1\<close>.\<close>

definition conv_out :: "nat \<Rightarrow> nat \<Rightarrow> nat \<Rightarrow> nat \<Rightarrow> nat \<Rightarrow> nat" where
  "conv_out h k s p d = (h + 2 * p - d * (k - 1) - 1) div s + 1"

definition conv_fits :: "nat \<Rightarrow> nat \<Rightarrow> nat \<Rightarrow> nat \<Rightarrow> nat \<Rightarrow> bool" where
  "conv_fits h k s p d = (0 < k \<and> 0 < s \<and> 0 < d \<and> d * (k - 1) + 1 \<le> h + 2 * p)"

definition Conv2d_val :: "ConvNd \<Rightarrow> tensor \<Rightarrow> vals" where
  "Conv2d_val m x n co i j =
     bias_at m co +
     (\<Sum>ci\<leftarrow>[0..<in_channels m div groups m].
      \<Sum>ki\<leftarrow>[0..<kernel_size m].
      \<Sum>kj\<leftarrow>[0..<kernel_size m].
        weight m co ci ki kj *
        padded x n (co div (out_channels m div groups m) * (in_channels m div groups m) + ci)
          (int (i * stride m + ki * dilation m) - int (padding m))
          (int (j * stride m + kj * dilation m) - int (padding m)))"

definition Conv2d_forward :: "ConvNd \<Rightarrow> tensor \<Rightarrow> error + tensor" where
  "Conv2d_forward m x =
     (if dimC x = in_channels m
         \<and> conv_fits (dimH x) (kernel_size m) (stride m) (padding m) (dilation m)
         \<and> conv_fits (dimW x) (kernel_size m) (stride m) (padding m) (dilation m)
      then Inr \<lparr>dimN = dimN x, dimC = out_channels m,
                dimH = conv_out (dimH x) (kernel_size m) (stride m) (padding m) (dilation m),
                dimW = conv_out (dimW x) (kernel_size m) (stride m) (padding m) (dilation m),
                val = Conv2d_val m x\<rparr>
      else Inl RuntimeError)"

text \<open>Output size of a transposed convolution along one axis: \<open>(h - 1) s - 2p + d(k-1) + 1\<close>.\<close>

definition convT_out :: "nat \<Rightarrow> nat \<Rightarrow> nat \<Rightarrow> nat \<Rightarrow> nat \<Rightarrow> nat" where
  "convT_out h k s p d = (h - 1) * s + d * (k - 1) + 1 - 2 * p"

definition convT_fits :: "nat \<Rightarrow> nat \<Rightarrow> nat \<Rightarrow> nat \<Rightarrow> nat \<Rightarrow> bool" where
  "convT_fits h k s p d = (0 < h \<and> 0 < k \<and> 0 < s \<and> 0 < d \<and> 2 * p < (h - 1) * s + d * (k - 1) + 1)"

definition ConvTranspose2d_val :: "ConvNd \<Rightarrow> tensor \<Rightarrow> vals" where
  "ConvTranspose2d_val m x n co i j =
     bias_at m co +
     (\<Sum>ci\<leftarrow>[0..<in_channels m].
      \<Sum>a\<leftarrow>[0..<dimH x].
      \<Sum>b\<leftarrow>[0..<dimW x].
      \<Sum>ki\<leftarrow>[0..<kernel_size m].
      \<Sum>kj\<leftarrow>[0..<kernel_size m].
        (if i + padding m = a * stride m + ki * dilation m
            \<and> j + padding m = b * stride m + kj * dilation m
         then val x n ci a b * weight m ci co ki kj else 0))"

definition ConvTranspose2d_forward :: "ConvNd \<Rightarrow> tensor \<Rightarrow> error + tensor" where
  "ConvTranspose2d_forward m x =
     (if dimC x = in_channels m
         \<and> convT_fits (dimH x) (kernel_size m) (stride m) (padding m) (dilation m)
         \<and> convT_fits (dimW x) (kernel_size m) (stride m) (padding m) (dilation m)
      then Inr \<lparr>dimN = dimN x, dimC = out_channels m,
                dimH = convT_out (dimH x) (kernel_size m) (stride m) (padding m) (dilation m),
                dimW = convT_out (dimW x) (kernel_size m) (stride m) (padding m) (dilation m),
                val = ConvTranspose2d_val m x\<rparr>
      else Inl RuntimeError)"

subsection \<open>Normalization and dropout\<close>

text \<open>
  \<^verbatim>\<open>nn.BatchNorm2d(num_features)\<close> and \<^verbatim>\<open>nn.InstanceNorm2d(num_features)\<close>
  keep the shape of their input. What they compute depends on the layer's
  affine parameters, on its running statistics and on the mode, so a layer carries
  the map from the input to the output values as a field. Batch normalization in
  training mode refuses an input with a single value per channel, and checks the
  channel count; instance normalization, which always takes its statistics from
  the input, refuses an input with a single spatial element. A call in training
  mode also updates the running statistics of a batch normalization layer, which
  changes the map of later calls in evaluation mode; a single call does not read
  the update, and it is not modelled.

  The mode (\<^verbatim>\<open>self.training\<close>, which \<^verbatim>\<open>train()\<close> and \<^verbatim>\<open>eval()\<close> set on a
  module and all its submodules) is an argument of every forward function.
\<close>

datatype norm_layer =
    BatchNorm2d nat "tensor \<Rightarrow> vals"
  | InstanceNorm2d nat "tensor \<Rightarrow> vals"

fun norm_forward :: "bool \<Rightarrow> norm_layer \<Rightarrow> tensor \<Rightarrow> error + tensor" where
  "norm_forward training (BatchNorm2d num_features f) x =
     (if training \<and> dimN x * dimH x * dimW x = 1 then Inl ValueError
      else if dimC x \<noteq> num_features then Inl RuntimeError
      else Inr (x\<lparr>val := f x\<rparr>))"
| "norm_forward training (InstanceNorm2d num_features f) x =
     (if dimH x * dimW x = 1 then Inl ValueError
      else Inr (x\<lparr>val := f x\<rparr>))"

text \<open>
  \<^verbatim>\<open>nn.Dropout2d(p)\<close>: in training mode whole channels are zeroed at random and
  the others scaled by \<open>1 / (1 - p)\<close>; \<open>keep\<close> is the draw of the random generator.
  In evaluation mode the layer is the identity.
\<close>

record Dropout2d =
  p :: real
  keep :: "nat \<Rightarrow> nat \<Rightarrow> bool"

definition Dropout2d_init :: "(nat \<Rightarrow> nat \<Rightarrow> bool) \<Rightarrow> real \<Rightarrow> Dropout2d" where
  "Dropout2d_init k0 prob = \<lparr>p = prob, keep = k0\<rparr>"

definition Dropout2d_forward :: "bool \<Rightarrow> Dropout2d \<Rightarrow> tensor \<Rightarrow> tensor" where
  "Dropout2d_forward training m x =
     (if training
      then x\<lparr>val := (\<lambda>n c h w. if keep m n c then val x n c h w / (1 - p m) else 0)\<rparr>
      else x)"

text \<open>
  The numbers a block receives from the library when it is built, and that training
  changes afterwards: the convolution's weight and bias, the map of the
  normalization layer, and the dropout draw.
\<close>

record params =
  weight0 :: vals
  bias0 :: "nat \<Rightarrow> real"
  norm0 :: "tensor \<Rightarrow> vals"
  keep0 :: "nat \<Rightarrow> nat \<Rightarrow> bool"

section \<open>The blocks of \<^verbatim>\<open>model_modules.py\<close>\<close>

subsection \<open>EncoderBlock\<close>

text \<open>
  The attribute \<^verbatim>\<open>self.norm\<close> is set only when \<^verbatim>\<open>do_norm\<close> holds; it is the
  field \<open>norm_attr\<close>, \<open>None\<close> when the attribute is missing. The defaults of the
  constructor (\<^verbatim>\<open>kernel_size=4, stride=2, padding=1, dilation=1, groups=1,
  bias=False, do_norm=True, norm='batch', do_activation=True\<close>) are written out
  at every call.
\<close>

record EncoderBlock =
  conv :: ConvNd
  leakyRelu :: LeakyReLU
  do_norm :: bool
  do_activation :: bool
  norm_attr :: "norm_layer option"

definition EncoderBlock_init ::
  "params \<Rightarrow> nat \<Rightarrow> nat \<Rightarrow> nat \<Rightarrow> nat \<Rightarrow> nat \<Rightarrow> nat \<Rightarrow> nat \<Rightarrow> bool \<Rightarrow> bool \<Rightarrow> string \<Rightarrow> bool
     \<Rightarrow> error + EncoderBlock" where
  "EncoderBlock_init ps cin cout k s pad d g use_bias donorm nrm doact =
     (let self = \<lparr>conv = Conv2d_init (weight0 ps) (bias0 ps) cin cout k s pad d g use_bias,
                  leakyRelu = LeakyReLU_init 0.2 True,
                  EncoderBlock.do_norm = donorm,
                  EncoderBlock.do_activation = doact,
                  EncoderBlock.norm_attr = None\<rparr>
      in if donorm
         then (if nrm = ''batch''
               then Inr (self\<lparr>EncoderBlock.norm_attr := Some (BatchNorm2d cout (norm0 ps))\<rparr>)
               else if nrm = ''instance''
               then Inr (self\<lparr>EncoderBlock.norm_attr := Some (InstanceNorm2d cout (norm0 ps))\<rparr>)
               else Inl (NotImplementedError ''norm error''))
         else Inr self)"

text \<open>
  \<^verbatim>\<open>forward\<close> returns the pair (the argument tensor as it stands after the call,
  the result): the leaky rectification is built with \<^verbatim>\<open>inplace=True\<close>
  and overwrites the tensor the block is given.
\<close>

definition EncoderBlock_forward ::
  "bool \<Rightarrow> EncoderBlock \<Rightarrow> tensor \<Rightarrow> error + tensor \<times> tensor" where
  "EncoderBlock_forward training self x =
     (case (if EncoderBlock.do_activation self
            then LeakyReLU_forward (leakyRelu self) x else (x, x)) of
        (x_arg, x1) \<Rightarrow>
          and_then (Conv2d_forward (conv self) x1) (\<lambda>x2.
          and_then (if EncoderBlock.do_norm self
                    then (case EncoderBlock.norm_attr self of
                            None \<Rightarrow> Inl AttributeError
                          | Some nl \<Rightarrow> norm_forward training nl x2)
                    else Inr x2) (\<lambda>x3.
          Inr (x_arg, x3))))"

subsection \<open>DecoderBlock\<close>

text \<open>
  Defaults of the constructor: \<^verbatim>\<open>kernel_size=4, stride=2, padding=1, bias=False,
  do_norm=True, norm='batch', do_activation=True, dropout_prob=0.0\<close>. The
  rectification \<^verbatim>\<open>nn.ReLU()\<close> is not in place.
\<close>

record DecoderBlock =
  convT :: ConvNd
  dropout_prob :: real
  drop :: Dropout2d
  do_norm :: bool
  do_activation :: bool
  norm_attr :: "norm_layer option"

definition DecoderBlock_init ::
  "params \<Rightarrow> nat \<Rightarrow> nat \<Rightarrow> nat \<Rightarrow> nat \<Rightarrow> nat \<Rightarrow> bool \<Rightarrow> bool \<Rightarrow> string \<Rightarrow> bool \<Rightarrow> real
     \<Rightarrow> error + DecoderBlock" where
  "DecoderBlock_init ps cin cout k s pad use_bias donorm nrm doact dprob =
     (let self = \<lparr>convT = ConvTranspose2d_init (weight0 ps) (bias0 ps) cin cout k s pad use_bias,
                  dropout_prob = dprob,
                  drop = Dropout2d_init (keep0 ps) dprob,
                  DecoderBlock.do_norm = donorm,
                  DecoderBlock.do_activation = doact,
                  DecoderBlock.norm_attr = None\<rparr>
      in if donorm
         then (if nrm = ''batch''
               then Inr (self\<lparr>DecoderBlock.norm_attr := Some (BatchNorm2d cout (norm0 ps))\<rparr>)
               else if nrm = ''instance''
               then Inr (self\<lparr>DecoderBlock.norm_attr := Some (InstanceNorm2d cout (norm0 ps))\<rparr>)
               else Inl (NotImplementedError ''norm error''))
         else Inr self)"

definition DecoderBlock_forward ::
  "bool \<Rightarrow> DecoderBlock \<Rightarrow> tensor \<Rightarrow> error + tensor" where
  "DecoderBlock_forward training self x =
     and_then (ConvTranspose2d_forward (convT self)
                 (if DecoderBlock.do_activation self then ReLU_forward x else x)) (\<lambda>x2.
     and_then (if DecoderBlock.do_norm self
               then (case DecoderBlock.norm_attr self of
                       None \<Rightarrow> Inl AttributeError
                     | Some nl \<Rightarrow> norm_forward training nl x2)
               else Inr x2) (\<lambda>x3.
     Inr (if dropout_prob self \<noteq> 0 then Dropout2d_forward training (drop self) x3 else x3)))"

section \<open>Generator\<close>

text \<open>
  \<open>ps\<close> gives, for the name of each block attribute, the numbers the library
  puts into that block. A block constructor that raises ends the construction.
\<close>

record Generator =
  encoder1 :: EncoderBlock
  encoder2 :: EncoderBlock
  encoder3 :: EncoderBlock
  encoder4 :: EncoderBlock
  encoder5 :: EncoderBlock
  encoder6 :: EncoderBlock
  encoder7 :: EncoderBlock
  encoder8 :: EncoderBlock
  decoder1 :: DecoderBlock
  decoder2 :: DecoderBlock
  decoder3 :: DecoderBlock
  decoder4 :: DecoderBlock
  decoder5 :: DecoderBlock
  decoder6 :: DecoderBlock
  decoder7 :: DecoderBlock
  decoder8 :: DecoderBlock

definition Generator_init ::
  "(string \<Rightarrow> params) \<Rightarrow> nat \<Rightarrow> nat \<Rightarrow> bool \<Rightarrow> real \<Rightarrow> string \<Rightarrow> error + Generator" where
  "Generator_init ps cin cout use_bias dprob nrm =
     and_then (EncoderBlock_init (ps ''encoder1'') cin 64 4 2 1 1 1 use_bias False ''batch'' False) (\<lambda>e1.
     and_then (EncoderBlock_init (ps ''encoder2'') 64 128 4 2 1 1 1 use_bias True nrm True) (\<lambda>e2.
     and_then (EncoderBlock_init (ps ''encoder3'') 128 256 4 2 1 1 1 use_bias True nrm True) (\<lambda>e3.
     and_then (EncoderBlock_init (ps ''encoder4'') 256 512 4 2 1 1 1 use_bias True nrm True) (\<lambda>e4.
     and_then (EncoderBlock_init (ps ''encoder5'') 512 512 4 2 1 1 1 use_bias True nrm True) (\<lambda>e5.
     and_then (EncoderBlock_init (ps ''encoder6'') 512 512 4 2 1 1 1 use_bias True nrm True) (\<lambda>e6.
     and_then (EncoderBlock_init (ps ''encoder7'') 512 512 4 2 1 1 1 use_bias True nrm True) (\<lambda>e7.
     and_then (EncoderBlock_init (ps ''encoder8'') 512 512 4 2 1 1 1 use_bias False ''batch'' True) (\<lambda>e8.
     and_then (DecoderBlock_init (ps ''decoder1'') 512 512 4 2 1 use_bias True nrm True 0) (\<lambda>d1.
     and_then (DecoderBlock_init (ps ''decoder2'') 1024 512 4 2 1 use_bias True nrm True dprob) (\<lambda>d2.
     and_then (DecoderBlock_init (ps ''decoder3'') 1024 512 4 2 1 use_bias True nrm True dprob) (\<lambda>d3.
     and_then (DecoderBlock_init (ps ''decoder4'') 1024 512 4 2 1 use_bias True nrm True dprob) (\<lambda>d4.
     and_then (DecoderBlock_init (ps ''decoder5'') 1024 256 4 2 1 use_bias True nrm True 0) (\<lambda>d5.
     and_then (DecoderBlock_init (ps ''decoder6'') 512 128 4 2 1 use_bias True nrm True 0) (\<lambda>d6.
     and_then (DecoderBlock_init (ps ''decoder7'') 256 64 4 2 1 use_bias True nrm True 0) (\<lambda>d7.
     and_then (DecoderBlock_init (ps ''decoder8'') 128 cout 4 2 1 use_bias False ''batch'' True 0) (\<lambda>d8.
     Inr \<lparr>encoder1 = e1, encoder2 = e2, encoder3 = e3, encoder4 = e4, encoder5 = e5, encoder6 = e6, encoder7 = e7, encoder8 = e8,
          decoder1 = d1, decoder2 = d2, decoder3 = d3, decoder4 = d4, decoder5 = d5, decoder6 = d6, decoder7 = d7, decoder8 = d8\<rparr>))))))))))))))))"

text \<open>
  The local variables of \<^verbatim>\<open>Generator.forward\<close> when it returns. A call
  \<^verbatim>\<open>self.encoderK(encodeJ)\<close> may overwrite \<^verbatim>\<open>encodeJ\<close> in place; the name bound
  again after the call is the tensor as it then stands, which is what the later
  concatenation reads.
\<close>

record Generator_locals =
  encode1 :: tensor
  encode2 :: tensor
  encode3 :: tensor
  encode4 :: tensor
  encode5 :: tensor
  encode6 :: tensor
  encode7 :: tensor
  encode8 :: tensor
  decode1 :: tensor
  decode2 :: tensor
  decode3 :: tensor
  decode4 :: tensor
  decode5 :: tensor
  decode6 :: tensor
  decode7 :: tensor
  decode8 :: tensor
  final :: tensor

definition Generator_forward_locals ::
  "bool \<Rightarrow> Generator \<Rightarrow> tensor \<Rightarrow> error + Generator_locals" where
  "Generator_forward_locals training self x =
     and_then (EncoderBlock_forward training (encoder1 self) x) (\<lambda>(x, encode1).
     and_then (EncoderBlock_forward training (encoder2 self) encode1) (\<lambda>(encode1, encode2).
     and_then (EncoderBlock_forward training (encoder3 self) encode2) (\<lambda>(encode2, encode3).
     and_then (EncoderBlock_forward training (encoder4 self) encode3) (\<lambda>(encode3, encode4).
     and_then (EncoderBlock_forward training (encoder5 self) encode4) (\<lambda>(encode4, encode5).
     and_then (EncoderBlock_forward training (encoder6 self) encode5) (\<lambda>(encode5, encode6).
     and_then (EncoderBlock_forward training (encoder7 self) encode6) (\<lambda>(encode6, encode7).
     and_then (EncoderBlock_forward training (encoder8 self) encode7) (\<lambda>(encode7, encode8).
     and_then (and_then (DecoderBlock_forward training (decoder1 self) encode8) (\<lambda>t. cat1 t encode7)) (\<lambda>decode1.
     and_then (and_then (DecoderBlock_forward training (decoder2 self) decode1) (\<lambda>t. cat1 t encode6)) (\<lambda>decode2.
     and_then (and_then (DecoderBlock_forward training (decoder3 self) decode2) (\<lambda>t. cat1 t encode5)) (\<lambda>decode3.
     and_then (and_then (DecoderBlock_forward training (decoder4 self) decode3) (\<lambda>t. cat1 t encode4)) (\<lambda>decode4.
     and_then (and_then (DecoderBlock_forward training (decoder5 self) decode4) (\<lambda>t. cat1 t encode3)) (\<lambda>decode5.
     and_then (and_then (DecoderBlock_forward training (decoder6 self) decode5) (\<lambda>t. cat1 t encode2)) (\<lambda>decode6.
     and_then (and_then (DecoderBlock_forward training (decoder7 self) decode6) (\<lambda>t. cat1 t encode1)) (\<lambda>decode7.
     and_then (DecoderBlock_forward training (decoder8 self) decode7) (\<lambda>decode8.
     Inr \<lparr>encode1 = encode1, encode2 = encode2, encode3 = encode3, encode4 = encode4, encode5 = encode5, encode6 = encode6, encode7 = encode7, encode8 = encode8,
          decode1 = decode1, decode2 = decode2, decode3 = decode3, decode4 = decode4, decode5 = decode5, decode6 = decode6, decode7 = decode7, decode8 = decode8,
          final = Tanh_forward decode8\<rparr>))))))))))))))))"

definition Generator_forward :: "bool \<Rightarrow> Generator \<Rightarrow> tensor \<Rightarrow> error + tensor" where
  "Generator_forward training self x =
     and_then (Generator_forward_locals training self x) (\<lambda>l. Inr (final l))"

section \<open>Discriminator\<close>

text \<open>
  The 70x70 discriminator. The locals of \<^verbatim>\<open>forward\<close> when it returns;
  \<open>x_ref\<close> is the unnamed concatenation \<^verbatim>\<open>torch.cat([x, ref],1)\<close>.
\<close>

record Discriminator =
  disc1 :: EncoderBlock
  disc2 :: EncoderBlock
  disc3 :: EncoderBlock
  disc4 :: EncoderBlock
  disc5 :: EncoderBlock

definition Discriminator_init ::
  "(string \<Rightarrow> params) \<Rightarrow> nat \<Rightarrow> nat \<Rightarrow> bool \<Rightarrow> string \<Rightarrow> error + Discriminator" where
  "Discriminator_init ps cin cout use_bias nrm =
     and_then (EncoderBlock_init (ps ''disc1'') (cin * 2) 64 4 2 1 1 1 use_bias False ''batch'' False) (\<lambda>b1.
     and_then (EncoderBlock_init (ps ''disc2'') 64 128 4 2 1 1 1 use_bias True nrm True) (\<lambda>b2.
     and_then (EncoderBlock_init (ps ''disc3'') 128 256 4 2 1 1 1 use_bias True nrm True) (\<lambda>b3.
     and_then (EncoderBlock_init (ps ''disc4'') 256 512 4 1 1 1 1 use_bias True nrm True) (\<lambda>b4.
     and_then (EncoderBlock_init (ps ''disc5'') 512 cout 4 1 1 1 1 use_bias False ''batch'' True) (\<lambda>b5.
     Inr \<lparr>Discriminator.disc1 = b1, Discriminator.disc2 = b2, Discriminator.disc3 = b3, Discriminator.disc4 = b4, Discriminator.disc5 = b5\<rparr>)))))"

record Discriminator_locals =
  x_ref :: tensor
  d1 :: tensor
  d2 :: tensor
  d3 :: tensor
  d4 :: tensor
  d5 :: tensor
  final :: tensor

definition Discriminator_forward_locals ::
  "bool \<Rightarrow> Discriminator \<Rightarrow> tensor \<Rightarrow> tensor \<Rightarrow> error + Discriminator_locals" where
  "Discriminator_forward_locals training self x ref =
     and_then (cat1 x ref) (\<lambda>x_ref.
     and_then (EncoderBlock_forward training (Discriminator.disc1 self) x_ref) (\<lambda>(x_ref, d1).
     and_then (EncoderBlock_forward training (Discriminator.disc2 self) d1) (\<lambda>(d1, d2).
     and_then (EncoderBlock_forward training (Discriminator.disc3 self) d2) (\<lambda>(d2, d3).
     and_then (EncoderBlock_forward training (Discriminator.disc4 self) d3) (\<lambda>(d3, d4).
     and_then (EncoderBlock_forward training (Discriminator.disc5 self) d4) (\<lambda>(d4, d5).
     Inr \<lparr>Discriminator_locals.x_ref = x_ref, Discriminator_locals.d1 = d1, Discriminator_locals.d2 = d2, Discriminator_locals.d3 = d3, Discriminator_locals.d4 = d4, Discriminator_locals.d5 = d5,
          Discriminator_locals.final = Sigmoid_forward d5\<rparr>))))))"

definition Discriminator_forward :: "bool \<Rightarrow> Discriminator \<Rightarrow> tensor \<Rightarrow> tensor \<Rightarrow> error + tensor" where
  "Discriminator_forward training self x ref =
     and_then (Discriminator_forward_locals training self x ref) (\<lambda>l. Inr (Discriminator_locals.final l))"

section \<open>Discriminator286\<close>

text \<open>
  The 286x286 discriminator, built and run like the 70x70 one.
\<close>

record Discriminator286 =
  disc1 :: EncoderBlock
  disc2 :: EncoderBlock
  disc3 :: EncoderBlock
  disc4 :: EncoderBlock
  disc5 :: EncoderBlock
  disc6 :: EncoderBlock
  disc7 :: EncoderBlock

definition Discriminator286_init ::
  "(string \<Rightarrow> params) \<Rightarrow> nat \<Rightarrow> nat \<Rightarrow> bool \<Rightarrow> string \<Rightarrow> error + Discriminator286" where
  "Discriminator286_init ps cin cout use_bias nrm =
     and_then (EncoderBlock_init (ps ''disc1'') (cin * 2) 64 4 2 1 1 1 use_bias False ''batch'' False) (\<lambda>b1.
     and_then (EncoderBlock_init (ps ''disc2'') 64 128 4 2 1 1 1 use_bias True nrm True) (\<lambda>b2.
     and_then (EncoderBlock_init (ps ''disc3'') 128 256 4 2 1 1 1 use_bias True nrm True) (\<lambda>b3.
     and_then (EncoderBlock_init (ps ''disc4'') 256 512 4 2 1 1 1 use_bias True nrm True) (\<lambda>b4.
     and_then (EncoderBlock_init (ps ''disc5'') 512 512 4 2 1 1 1 use_bias True nrm True) (\<lambda>b5.
     and_then (EncoderBlock_init (ps ''disc6'') 512 512 4 1 1 1 1 use_bias True nrm True) (\<lambda>b6.
     and_then (EncoderBlock_init (ps ''disc7'') 512 cout 4 1 1 1 1 use_bias False ''batch'' True) (\<lambda>b7.
     Inr \<lparr>Discriminator286.disc1 = b1, Discriminator286.disc2 = b2, Discriminator286.disc3 = b3, Discriminator286.disc4 = b4, Discriminator286.disc5 = b5, Discriminator286.disc6 = b6, Discriminator286.disc7 = b7\<rparr>)))))))"

record Discriminator286_locals =
  x_ref :: tensor
  d1 :: tensor
  d2 :: tensor
  d3 :: tensor
  d4 :: tensor
  d5 :: tensor
  d6 :: tensor
  d7 :: tensor
  final :: tensor

definition Discriminator286_forward_locals ::
  "bool \<Rightarrow> Discriminator286 \<Rightarrow> tensor \<Rightarrow> tensor \<Rightarrow> error + Discriminator286_locals" where
  "Discriminator286_forward_locals training self x ref =
     and_then (cat1 x ref) (\<lambda>x_ref.
     and_then (EncoderBlock_forward training (Discriminator286.disc1 self) x_ref) (\<lambda>(x_ref, d1).
     and_then (EncoderBlock_forward training (Discriminator286.disc2 self) d1) (\<lambda>(d1, d2).
     and_then (EncoderBlock_forward training (Discriminator286.disc3 self) d2) (\<lambda>(d2, d3).
     and_then (EncoderBlock_forward training (Discriminator286.disc4 self) d3) (\<lambda>(d3, d4).
     and_then (EncoderBlock_forward training (Discriminator286.disc5 self) d4) (\<lambda>(d4, d5).
     and_then (EncoderBlock_forward training (Discriminator286.disc6 self) d5) (\<lambda>(d5, d6).
     and_then (EncoderBlock_forward training (Discriminator286.disc7 self) d6) (\<lambda>(d6, d7).
     Inr \<lparr>Discriminator286_locals.x_ref = x_ref, Discriminator286_locals.d1 = d1, Discriminator286_locals.d2 = d2, Discriminator286_locals.d3 = d3, Discriminator286_locals.d4 = d4, Discriminator286_locals.d5 = d5, Discriminator286_locals.d6 = d6, Discriminator286_locals.d7 = d7,
          Discriminator286_locals.final = Sigmoid_forward d7\<rparr>))))))))"

definition Discriminator286_forward :: "bool \<Rightarrow> Discriminator286 \<Rightarrow> tensor \<Rightarrow> tensor \<Rightarrow> error + tensor" where
  "Discriminator286_forward training self x ref =
     and_then (Discriminator286_forward_locals training self x ref) (\<lambda>l. Inr (Discriminator286_locals.final l))"

section \<open>Auxiliary definitions for the statements\<close>

text \<open>When a normalization layer accepts an input of the given sizes.\<close>

fun norm_accepts :: "bool \<Rightarrow> norm_layer \<Rightarrow> nat \<Rightarrow> nat \<Rightarrow> nat \<Rightarrow> nat \<Rightarrow> bool" where
  "norm_accepts training (BatchNorm2d num_features f) n c h w =
     (\<not> (training \<and> n * h * w = 1) \<and> c = num_features)"
| "norm_accepts training (InstanceNorm2d num_features f) n c h w = (h * w \<noteq> 1)"

text \<open>The tensor an encoder block was given, as it stands after the call.\<close>

definition arg_after :: "EncoderBlock \<Rightarrow> tensor \<Rightarrow> tensor" where
  "arg_after b x =
     (if EncoderBlock.do_activation b \<and> inplace (leakyRelu b)
      then pointwise (leaky_relu (negative_slope (leakyRelu b))) x else x)"

text \<open>The normalization layer a block builds for a recognized mode.\<close>

definition norm_of :: "params \<Rightarrow> string \<Rightarrow> nat \<Rightarrow> norm_layer" where
  "norm_of ps nrm cout =
     (if nrm = ''batch'' then BatchNorm2d cout (norm0 ps) else InstanceNorm2d cout (norm0 ps))"

text \<open>A concrete parameter assignment and a concrete input, used in the instances below.\<close>

definition ex_params :: "string \<Rightarrow> params" where
  "ex_params name = \<lparr>weight0 = (\<lambda>co ci ki kj. - 1), bias0 = (\<lambda>co. 0),
                      norm0 = val, keep0 = (\<lambda>n c. True)\<rparr>"

definition ex_input :: tensor where
  "ex_input = \<lparr>dimN = 1, dimC = 3, dimH = 256, dimW = 256, val = (\<lambda>n c h w. 1)\<rparr>"

text \<open>
  The models built from them with the default arguments (three input channels, no
  bias, batch normalization; dropout probability 0.5 and three output channels for
  the generator, one output channel for the discriminators), and what their runs in
  training mode return. \<open>projr\<close> reads the value of a result that is not an error.
\<close>

definition ex_generator :: Generator where
  "ex_generator = projr (Generator_init ex_params 3 3 False (1 / 2) ''batch'')"

definition ex_generator_locals :: Generator_locals where
  "ex_generator_locals = projr (Generator_forward_locals True ex_generator ex_input)"

definition ex_encode1_returned :: tensor where
  "ex_encode1_returned = snd (projr (EncoderBlock_forward True (encoder1 ex_generator) ex_input))"

definition ex_discriminator :: Discriminator where
  "ex_discriminator = projr (Discriminator_init ex_params 3 1 False ''batch'')"

definition ex_discriminator286 :: Discriminator286 where
  "ex_discriminator286 = projr (Discriminator286_init ex_params 3 1 False ''batch'')"

definition ex_output286 :: tensor where
  "ex_output286 = projr (Discriminator286_forward True ex_discriminator286 ex_input ex_input)"

text \<open>
  A small input, of shape (1,3,2,2), and two encoder blocks built with the default
  arguments but for the normalization mode.
\<close>

definition ex_small_input :: tensor where
  "ex_small_input = \<lparr>dimN = 1, dimC = 3, dimH = 2, dimW = 2, val = (\<lambda>n c h w. 1)\<rparr>"

definition ex_encoder_batch :: EncoderBlock where
  "ex_encoder_batch =
     projr (EncoderBlock_init (ex_params ''encoder'') 3 8 4 2 1 1 1 False True ''batch'' True)"

definition ex_encoder_instance :: EncoderBlock where
  "ex_encoder_instance =
     projr (EncoderBlock_init (ex_params ''encoder'') 3 8 4 2 1 1 1 False True ''instance'' True)"

text \<open>Input channels, output channels and stride of a block's convolution.\<close>

definition block_shape :: "EncoderBlock \<Rightarrow> nat \<times> nat \<times> nat" where
  "block_shape b = (in_channels (conv b), out_channels (conv b), stride (conv b))"

text \<open>
  \<open>d\<close> is the concatenation of \<open>t\<close> and \<open>e\<close> along the channel axis, in that
  order: the first \<open>dc\<close> channels of \<open>d\<close> are those of \<open>t\<close>, the following
  \<open>ec\<close> channels those of \<open>e\<close>.
\<close>

definition skip_concat :: "tensor \<Rightarrow> tensor \<Rightarrow> tensor \<Rightarrow> nat \<Rightarrow> nat \<Rightarrow> bool" where
  "skip_concat t e d dc ec =
     (cat1 t e = Inr d \<and> dimC t = dc \<and> dimC e = ec \<and> dimC d = dc + ec
      \<and> (\<forall>n c h w. val d n c h w = (if c < dc then val t n c h w else val e n (c - dc) h w)))"

subsection \<open>The block pipelines as the specification words them\<close>

text \<open>
  A pipeline runs its stages in order; the first failure ends it. The stage lists
  below follow sections 4.1 and 4.2 of the specification: for an encoder block the
  leaky rectification with negative slope 0.2 when activation is enabled, then the
  convolution with the configured arguments, then the configured normalization when
  normalization is enabled; for a decoder block the plain rectification when
  activation is enabled, then the transposed convolution, then the normalization
  when enabled, then dropout when the dropout probability is not zero.
\<close>

definition pipeline :: "(tensor \<Rightarrow> error + tensor) list \<Rightarrow> tensor \<Rightarrow> error + tensor" where
  "pipeline stages x = fold (\<lambda>stage r. and_then r stage) stages (Inr x)"

definition EncoderBlock_spec_stages ::
  "bool \<Rightarrow> params \<Rightarrow> nat \<Rightarrow> nat \<Rightarrow> nat \<Rightarrow> nat \<Rightarrow> nat \<Rightarrow> nat \<Rightarrow> nat \<Rightarrow> bool \<Rightarrow> bool \<Rightarrow> string \<Rightarrow> bool
     \<Rightarrow> (tensor \<Rightarrow> error + tensor) list" where
  "EncoderBlock_spec_stages training ps cin cout k s pad d g use_bias donorm nrm doact =
     (if doact then [\<lambda>x. Inr (pointwise (leaky_relu 0.2) x)] else [])
     @ [Conv2d_forward (Conv2d_init (weight0 ps) (bias0 ps) cin cout k s pad d g use_bias)]
     @ (if donorm then [norm_forward training (norm_of ps nrm cout)] else [])"

definition DecoderBlock_spec_stages ::
  "bool \<Rightarrow> params \<Rightarrow> nat \<Rightarrow> nat \<Rightarrow> nat \<Rightarrow> nat \<Rightarrow> nat \<Rightarrow> bool \<Rightarrow> bool \<Rightarrow> string \<Rightarrow> bool \<Rightarrow> real
     \<Rightarrow> (tensor \<Rightarrow> error + tensor) list" where
  "DecoderBlock_spec_stages training ps cin cout k s pad use_bias donorm nrm doact dprob =
     (if doact then [\<lambda>x. Inr (pointwise relu x)] else [])
     @ [ConvTranspose2d_forward (ConvTranspose2d_init (weight0 ps) (bias0 ps) cin cout k s pad use_bias)]
     @ (if donorm then [norm_forward training (norm_of ps nrm cout)] else [])
     @ (if dprob \<noteq> 0
        then [\<lambda>x. Inr (Dropout2d_forward training (Dropout2d_init (keep0 ps) dprob) x)] else [])"

section \<open>Properties of the library layers and of the blocks\<close>

lemma and_then_Inr [simp]: "and_then (Inr v) f = f v"
  by (simp add: and_then_def)

lemma and_then_Inl [simp]: "and_then (Inl e) f = Inl e"
  by (simp add: and_then_def)

lemma pointwise_dims [simp]:
  "dimN (pointwise f x) = dimN x" "dimC (pointwise f x) = dimC x"
  "dimH (pointwise f x) = dimH x" "dimW (pointwise f x) = dimW x"
  "val (pointwise f x) n c h w = f (val x n c h w)"
  by (simp_all add: pointwise_def)

lemma sigmoid_range: "0 \<le> sigmoid v \<and> sigmoid v \<le> 1"
proof -
  have "0 < exp (- v)" by simp
  then show ?thesis by (simp add: sigmoid_def add_pos_pos)
qed

lemma tanh_range: "- 1 \<le> tanh (v::real) \<and> tanh v \<le> 1"
  using tanh_real_bounds[of v] by auto

lemma Conv2d_forward_ok:
  assumes "dimC x = in_channels m"
    and "conv_fits (dimH x) (kernel_size m) (stride m) (padding m) (dilation m)"
    and "conv_fits (dimW x) (kernel_size m) (stride m) (padding m) (dilation m)"
  shows "\<exists>y. Conv2d_forward m x = Inr y \<and> dimN y = dimN x \<and> dimC y = out_channels m
          \<and> dimH y = conv_out (dimH x) (kernel_size m) (stride m) (padding m) (dilation m)
          \<and> dimW y = conv_out (dimW x) (kernel_size m) (stride m) (padding m) (dilation m)
          \<and> val y = Conv2d_val m x"
  using assms by (simp add: Conv2d_forward_def)

lemma ConvTranspose2d_forward_ok:
  assumes "dimC x = in_channels m"
    and "convT_fits (dimH x) (kernel_size m) (stride m) (padding m) (dilation m)"
    and "convT_fits (dimW x) (kernel_size m) (stride m) (padding m) (dilation m)"
  shows "\<exists>y. ConvTranspose2d_forward m x = Inr y \<and> dimN y = dimN x \<and> dimC y = out_channels m
          \<and> dimH y = convT_out (dimH x) (kernel_size m) (stride m) (padding m) (dilation m)
          \<and> dimW y = convT_out (dimW x) (kernel_size m) (stride m) (padding m) (dilation m)"
  using assms by (simp add: ConvTranspose2d_forward_def)

lemma norm_forward_ok:
  assumes "norm_accepts training nl (dimN x) (dimC x) (dimH x) (dimW x)"
  shows "\<exists>y. norm_forward training nl x = Inr y \<and> dimN y = dimN x \<and> dimC y = dimC x
          \<and> dimH y = dimH x \<and> dimW y = dimW x"
  using assms by (cases nl) auto

lemma EncoderBlock_forward_ok:
  assumes c: "dimC x = in_channels (conv b)"
    and h: "conv_fits (dimH x) (kernel_size (conv b)) (stride (conv b)) (padding (conv b)) (dilation (conv b))"
    and w: "conv_fits (dimW x) (kernel_size (conv b)) (stride (conv b)) (padding (conv b)) (dilation (conv b))"
    and n: "EncoderBlock.do_norm b \<Longrightarrow> \<exists>nl. EncoderBlock.norm_attr b = Some nl \<and>
              norm_accepts training nl (dimN x) (out_channels (conv b))
                (conv_out (dimH x) (kernel_size (conv b)) (stride (conv b)) (padding (conv b)) (dilation (conv b)))
                (conv_out (dimW x) (kernel_size (conv b)) (stride (conv b)) (padding (conv b)) (dilation (conv b)))"
  shows "\<exists>y. EncoderBlock_forward training b x = Inr (arg_after b x, y)
          \<and> dimN y = dimN x \<and> dimC y = out_channels (conv b)
          \<and> dimH y = conv_out (dimH x) (kernel_size (conv b)) (stride (conv b)) (padding (conv b)) (dilation (conv b))
          \<and> dimW y = conv_out (dimW x) (kernel_size (conv b)) (stride (conv b)) (padding (conv b)) (dilation (conv b))"
proof -
  define x1 where "x1 = (if EncoderBlock.do_activation b
                         then pointwise (leaky_relu (negative_slope (leakyRelu b))) x else x)"
  have dims: "dimN x1 = dimN x" "dimC x1 = dimC x" "dimH x1 = dimH x" "dimW x1 = dimW x"
    by (simp_all add: x1_def)
  have act: "(if EncoderBlock.do_activation b then LeakyReLU_forward (leakyRelu b) x else (x, x))
             = (arg_after b x, x1)"
    by (simp add: x1_def arg_after_def LeakyReLU_forward_def)
  obtain x2 where x2: "Conv2d_forward (conv b) x1 = Inr x2" "dimN x2 = dimN x"
    "dimC x2 = out_channels (conv b)"
    "dimH x2 = conv_out (dimH x) (kernel_size (conv b)) (stride (conv b)) (padding (conv b)) (dilation (conv b))"
    "dimW x2 = conv_out (dimW x) (kernel_size (conv b)) (stride (conv b)) (padding (conv b)) (dilation (conv b))"
    using Conv2d_forward_ok[of x1 "conv b"] c h w dims by auto
  show ?thesis
  proof (cases "EncoderBlock.do_norm b")
    case False
    then show ?thesis
      by (simp add: EncoderBlock_forward_def act x2)
  next
    case True
    then obtain nl where nl: "EncoderBlock.norm_attr b = Some nl"
      "norm_accepts training nl (dimN x2) (dimC x2) (dimH x2) (dimW x2)"
      using n x2 by auto
    then obtain x3 where "norm_forward training nl x2 = Inr x3" "dimN x3 = dimN x2"
      "dimC x3 = dimC x2" "dimH x3 = dimH x2" "dimW x3 = dimW x2"
      using norm_forward_ok by blast
    then show ?thesis
      using True nl by (simp add: EncoderBlock_forward_def act x2)
  qed
qed

lemma DecoderBlock_forward_ok:
  assumes c: "dimC x = in_channels (convT b)"
    and h: "convT_fits (dimH x) (kernel_size (convT b)) (stride (convT b)) (padding (convT b)) (dilation (convT b))"
    and w: "convT_fits (dimW x) (kernel_size (convT b)) (stride (convT b)) (padding (convT b)) (dilation (convT b))"
    and n: "DecoderBlock.do_norm b \<Longrightarrow> \<exists>nl. DecoderBlock.norm_attr b = Some nl \<and>
              norm_accepts training nl (dimN x) (out_channels (convT b))
                (convT_out (dimH x) (kernel_size (convT b)) (stride (convT b)) (padding (convT b)) (dilation (convT b)))
                (convT_out (dimW x) (kernel_size (convT b)) (stride (convT b)) (padding (convT b)) (dilation (convT b)))"
  shows "\<exists>y. DecoderBlock_forward training b x = Inr y
          \<and> dimN y = dimN x \<and> dimC y = out_channels (convT b)
          \<and> dimH y = convT_out (dimH x) (kernel_size (convT b)) (stride (convT b)) (padding (convT b)) (dilation (convT b))
          \<and> dimW y = convT_out (dimW x) (kernel_size (convT b)) (stride (convT b)) (padding (convT b)) (dilation (convT b))"
proof -
  define x1 where "x1 = (if DecoderBlock.do_activation b then ReLU_forward x else x)"
  have dims: "dimN x1 = dimN x" "dimC x1 = dimC x" "dimH x1 = dimH x" "dimW x1 = dimW x"
    by (simp_all add: x1_def ReLU_forward_def)
  obtain x2 where x2: "ConvTranspose2d_forward (convT b) x1 = Inr x2" "dimN x2 = dimN x"
    "dimC x2 = out_channels (convT b)"
    "dimH x2 = convT_out (dimH x) (kernel_size (convT b)) (stride (convT b)) (padding (convT b)) (dilation (convT b))"
    "dimW x2 = convT_out (dimW x) (kernel_size (convT b)) (stride (convT b)) (padding (convT b)) (dilation (convT b))"
    using ConvTranspose2d_forward_ok[of x1 "convT b"] c h w dims by auto
  have drop_dims: "dimN (Dropout2d_forward training m z) = dimN z"
    "dimC (Dropout2d_forward training m z) = dimC z"
    "dimH (Dropout2d_forward training m z) = dimH z"
    "dimW (Dropout2d_forward training m z) = dimW z" for m z
    by (simp_all add: Dropout2d_forward_def)
  show ?thesis
  proof (cases "DecoderBlock.do_norm b")
    case False
    then show ?thesis
      using x2 by (simp add: DecoderBlock_forward_def x1_def[symmetric] drop_dims)
  next
    case True
    then obtain nl where nl: "DecoderBlock.norm_attr b = Some nl"
      "norm_accepts training nl (dimN x2) (dimC x2) (dimH x2) (dimW x2)"
      using n x2 by auto
    then obtain x3 where "norm_forward training nl x2 = Inr x3" "dimN x3 = dimN x2"
      "dimC x3 = dimC x2" "dimH x3 = dimH x2" "dimW x3 = dimW x2"
      using norm_forward_ok by blast
    then show ?thesis
      using True nl x2 by (simp add: DecoderBlock_forward_def x1_def[symmetric] drop_dims)
  qed
qed

lemma EncoderBlock_init_Inr:
  assumes "EncoderBlock_init ps cin cout k s pad d g ub dn nrm da = Inr b"
  shows "conv b = Conv2d_init (weight0 ps) (bias0 ps) cin cout k s pad d g ub"
    and "leakyRelu b = LeakyReLU_init 0.2 True"
    and "EncoderBlock.do_norm b = dn"
    and "EncoderBlock.do_activation b = da"
    and "EncoderBlock.norm_attr b = (if dn then Some (norm_of ps nrm cout) else None)"
    and "dn \<Longrightarrow> nrm = ''batch'' \<or> nrm = ''instance''"
  using assms by (auto simp: EncoderBlock_init_def norm_of_def Let_def split: if_splits)

lemma DecoderBlock_init_Inr:
  assumes "DecoderBlock_init ps cin cout k s pad ub dn nrm da dprob = Inr b"
  shows "convT b = ConvTranspose2d_init (weight0 ps) (bias0 ps) cin cout k s pad ub"
    and "dropout_prob b = dprob"
    and "drop b = Dropout2d_init (keep0 ps) dprob"
    and "DecoderBlock.do_norm b = dn"
    and "DecoderBlock.do_activation b = da"
    and "DecoderBlock.norm_attr b = (if dn then Some (norm_of ps nrm cout) else None)"
    and "dn \<Longrightarrow> nrm = ''batch'' \<or> nrm = ''instance''"
  using assms by (auto simp: DecoderBlock_init_def norm_of_def Let_def split: if_splits)

lemma EncoderBlock_init_succeeds:
  assumes "dn \<Longrightarrow> nrm = ''batch'' \<or> nrm = ''instance''"
  shows "\<exists>b. EncoderBlock_init ps cin cout k s pad d g ub dn nrm da = Inr b"
  using assms by (auto simp: EncoderBlock_init_def Let_def)

lemma DecoderBlock_init_succeeds:
  assumes "dn \<Longrightarrow> nrm = ''batch'' \<or> nrm = ''instance''"
  shows "\<exists>b. DecoderBlock_init ps cin cout k s pad ub dn nrm da dprob = Inr b"
  using assms by (auto simp: DecoderBlock_init_def Let_def)

lemma Conv2d_init_sel [simp]:
  "in_channels (Conv2d_init w0 b0 cin cout k s pad d g ub) = cin"
  "out_channels (Conv2d_init w0 b0 cin cout k s pad d g ub) = cout"
  "kernel_size (Conv2d_init w0 b0 cin cout k s pad d g ub) = k"
  "stride (Conv2d_init w0 b0 cin cout k s pad d g ub) = s"
  "padding (Conv2d_init w0 b0 cin cout k s pad d g ub) = pad"
  "dilation (Conv2d_init w0 b0 cin cout k s pad d g ub) = d"
  "groups (Conv2d_init w0 b0 cin cout k s pad d g ub) = g"
  "weight (Conv2d_init w0 b0 cin cout k s pad d g ub) = w0"
  "bias (Conv2d_init w0 b0 cin cout k s pad d g ub) = (if ub then Some b0 else None)"
  by (simp_all add: Conv2d_init_def)

lemma ConvTranspose2d_init_sel [simp]:
  "in_channels (ConvTranspose2d_init w0 b0 cin cout k s pad ub) = cin"
  "out_channels (ConvTranspose2d_init w0 b0 cin cout k s pad ub) = cout"
  "kernel_size (ConvTranspose2d_init w0 b0 cin cout k s pad ub) = k"
  "stride (ConvTranspose2d_init w0 b0 cin cout k s pad ub) = s"
  "padding (ConvTranspose2d_init w0 b0 cin cout k s pad ub) = pad"
  "dilation (ConvTranspose2d_init w0 b0 cin cout k s pad ub) = 1"
  "groups (ConvTranspose2d_init w0 b0 cin cout k s pad ub) = 1"
  by (simp_all add: ConvTranspose2d_init_def)

lemma norm_accepts_norm_of:
  "norm_accepts training (norm_of ps nrm c) n c h w =
     (if nrm = ''batch'' then \<not> (training \<and> n * h * w = 1) else h * w \<noteq> 1)"
  by (simp add: norm_of_def)

text \<open>A block as the composite models build it: kernel 4, padding 1, dilation 1.\<close>

lemma EncoderBlock_step:
  assumes b: "EncoderBlock_init ps cin cout 4 s 1 1 1 ub dn nrm da = Inr b"
    and c: "dimC x = cin" and s: "0 < s" and h: "2 \<le> dimH x" and w: "2 \<le> dimW x"
    and n: "dn \<Longrightarrow> 1 < conv_out (dimH x) 4 s 1 1 * conv_out (dimW x) 4 s 1 1"
  shows "\<exists>y. EncoderBlock_forward training b x
              = Inr (if da then pointwise (leaky_relu 0.2) x else x, y)
          \<and> dimN y = dimN x \<and> dimC y = cout
          \<and> dimH y = conv_out (dimH x) 4 s 1 1 \<and> dimW y = conv_out (dimW x) 4 s 1 1"
proof -
  note f = EncoderBlock_init_Inr[OF b]
  have aa: "arg_after b x = (if da then pointwise (leaky_relu 0.2) x else x)"
    by (simp add: arg_after_def f LeakyReLU_init_def)
  have "\<exists>y. EncoderBlock_forward training b x = Inr (arg_after b x, y)
          \<and> dimN y = dimN x \<and> dimC y = out_channels (conv b)
          \<and> dimH y = conv_out (dimH x) (kernel_size (conv b)) (stride (conv b)) (padding (conv b)) (dilation (conv b))
          \<and> dimW y = conv_out (dimW x) (kernel_size (conv b)) (stride (conv b)) (padding (conv b)) (dilation (conv b))"
  proof (rule EncoderBlock_forward_ok)
    show "dimC x = in_channels (conv b)" using c by (simp add: f)
    show "conv_fits (dimH x) (kernel_size (conv b)) (stride (conv b)) (padding (conv b)) (dilation (conv b))"
      using h s by (simp add: f conv_fits_def)
    show "conv_fits (dimW x) (kernel_size (conv b)) (stride (conv b)) (padding (conv b)) (dilation (conv b))"
      using w s by (simp add: f conv_fits_def)
    assume "EncoderBlock.do_norm b"
    then have dn by (simp add: f)
    from n[OF this] have "conv_out (dimH x) 4 s 1 1 * conv_out (dimW x) 4 s 1 1 \<noteq> 1"
      "dimN x * conv_out (dimH x) 4 s 1 1 * conv_out (dimW x) 4 s 1 1 \<noteq> 1"
      by (auto simp: mult.assoc)
    then show "\<exists>nl. EncoderBlock.norm_attr b = Some nl \<and>
              norm_accepts training nl (dimN x) (out_channels (conv b))
                (conv_out (dimH x) (kernel_size (conv b)) (stride (conv b)) (padding (conv b)) (dilation (conv b)))
                (conv_out (dimW x) (kernel_size (conv b)) (stride (conv b)) (padding (conv b)) (dilation (conv b)))"
      using \<open>dn\<close> by (simp add: f norm_accepts_norm_of)
  qed
  then show ?thesis by (simp add: aa f)
qed

lemma DecoderBlock_step:
  assumes b: "DecoderBlock_init ps cin cout 4 2 1 ub dn nrm da dprob = Inr b"
    and c: "dimC x = cin" and h: "0 < dimH x" and w: "0 < dimW x"
  shows "\<exists>y. DecoderBlock_forward training b x = Inr y
          \<and> dimN y = dimN x \<and> dimC y = cout
          \<and> dimH y = 2 * dimH x \<and> dimW y = 2 * dimW x"
proof -
  note f = DecoderBlock_init_Inr[OF b]
  have o: "convT_out (dimH x) 4 2 1 1 = 2 * dimH x" "convT_out (dimW x) 4 2 1 1 = 2 * dimW x"
    using h w by (simp_all add: convT_out_def algebra_simps)
  then have o': "convT_out (dimH x) 4 2 (Suc 0) (Suc 0) = 2 * dimH x"
    "convT_out (dimW x) 4 2 (Suc 0) (Suc 0) = 2 * dimW x"
    by simp_all
  have "\<exists>y. DecoderBlock_forward training b x = Inr y
          \<and> dimN y = dimN x \<and> dimC y = out_channels (convT b)
          \<and> dimH y = convT_out (dimH x) (kernel_size (convT b)) (stride (convT b)) (padding (convT b)) (dilation (convT b))
          \<and> dimW y = convT_out (dimW x) (kernel_size (convT b)) (stride (convT b)) (padding (convT b)) (dilation (convT b))"
  proof (rule DecoderBlock_forward_ok)
    show "dimC x = in_channels (convT b)" using c by (simp add: f)
    show "convT_fits (dimH x) (kernel_size (convT b)) (stride (convT b)) (padding (convT b)) (dilation (convT b))"
      using h by (simp add: f convT_fits_def)
    show "convT_fits (dimW x) (kernel_size (convT b)) (stride (convT b)) (padding (convT b)) (dilation (convT b))"
      using w by (simp add: f convT_fits_def)
    assume "DecoderBlock.do_norm b"
    then have dn by (simp add: f)
    have "convT_out (dimH x) 4 2 (Suc 0) (Suc 0) \<noteq> Suc 0"
      using o by simp
    then show "\<exists>nl. DecoderBlock.norm_attr b = Some nl \<and>
              norm_accepts training nl (dimN x) (out_channels (convT b))
                (convT_out (dimH x) (kernel_size (convT b)) (stride (convT b)) (padding (convT b)) (dilation (convT b)))
                (convT_out (dimW x) (kernel_size (convT b)) (stride (convT b)) (padding (convT b)) (dilation (convT b)))"
      using \<open>dn\<close> by (simp add: f norm_accepts_norm_of)
  qed
  then show ?thesis by (simp add: f o')
qed

lemma Generator_init_Inr:
  assumes "Generator_init ps cin cout ub dp nrm = Inr g"
  shows "EncoderBlock_init (ps ''encoder1'') cin 64 4 2 1 1 1 ub False ''batch'' False = Inr (encoder1 g)"
    and "EncoderBlock_init (ps ''encoder2'') 64 128 4 2 1 1 1 ub True nrm True = Inr (encoder2 g)"
    and "EncoderBlock_init (ps ''encoder3'') 128 256 4 2 1 1 1 ub True nrm True = Inr (encoder3 g)"
    and "EncoderBlock_init (ps ''encoder4'') 256 512 4 2 1 1 1 ub True nrm True = Inr (encoder4 g)"
    and "EncoderBlock_init (ps ''encoder5'') 512 512 4 2 1 1 1 ub True nrm True = Inr (encoder5 g)"
    and "EncoderBlock_init (ps ''encoder6'') 512 512 4 2 1 1 1 ub True nrm True = Inr (encoder6 g)"
    and "EncoderBlock_init (ps ''encoder7'') 512 512 4 2 1 1 1 ub True nrm True = Inr (encoder7 g)"
    and "EncoderBlock_init (ps ''encoder8'') 512 512 4 2 1 1 1 ub False ''batch'' True = Inr (encoder8 g)"
    and "DecoderBlock_init (ps ''decoder1'') 512 512 4 2 1 ub True nrm True 0 = Inr (decoder1 g)"
    and "DecoderBlock_init (ps ''decoder2'') 1024 512 4 2 1 ub True nrm True dp = Inr (decoder2 g)"
    and "DecoderBlock_init (ps ''decoder3'') 1024 512 4 2 1 ub True nrm True dp = Inr (decoder3 g)"
    and "DecoderBlock_init (ps ''decoder4'') 1024 512 4 2 1 ub True nrm True dp = Inr (decoder4 g)"
    and "DecoderBlock_init (ps ''decoder5'') 1024 256 4 2 1 ub True nrm True 0 = Inr (decoder5 g)"
    and "DecoderBlock_init (ps ''decoder6'') 512 128 4 2 1 ub True nrm True 0 = Inr (decoder6 g)"
    and "DecoderBlock_init (ps ''decoder7'') 256 64 4 2 1 ub True nrm True 0 = Inr (decoder7 g)"
    and "DecoderBlock_init (ps ''decoder8'') 128 cout 4 2 1 ub False ''batch'' True 0 = Inr (decoder8 g)"
  using assms unfolding Generator_init_def and_then_def
  by (auto split: sum.splits)

lemma cat1_ok:
  assumes "dimN a = dimN b" "dimH a = dimH b" "dimW a = dimW b"
  shows "\<exists>c. cat1 a b = Inr c \<and> dimN c = dimN a \<and> dimC c = dimC a + dimC b
          \<and> dimH c = dimH a \<and> dimW c = dimW a"
  using assms by (simp add: cat1_def)

lemma Generator_forward_locals_trace:
  assumes G: "Generator_init ps cin cout ub dp nrm = Inr g"
    and X: "dimC x = cin" "dimH x = 256" "dimW x = 256"
  obtains y1 y2 y3 y4 y5 y6 y7 y8 t1 t2 t3 t4 t5 t6 t7 L where
    "EncoderBlock_forward tr (encoder1 g) x = Inr (x, y1)"
    and "EncoderBlock_forward tr (encoder2 g) y1 = Inr (pointwise (leaky_relu 0.2) y1, y2)"
    and "EncoderBlock_forward tr (encoder3 g) y2 = Inr (pointwise (leaky_relu 0.2) y2, y3)"
    and "EncoderBlock_forward tr (encoder4 g) y3 = Inr (pointwise (leaky_relu 0.2) y3, y4)"
    and "EncoderBlock_forward tr (encoder5 g) y4 = Inr (pointwise (leaky_relu 0.2) y4, y5)"
    and "EncoderBlock_forward tr (encoder6 g) y5 = Inr (pointwise (leaky_relu 0.2) y5, y6)"
    and "EncoderBlock_forward tr (encoder7 g) y6 = Inr (pointwise (leaky_relu 0.2) y6, y7)"
    and "EncoderBlock_forward tr (encoder8 g) y7 = Inr (pointwise (leaky_relu 0.2) y7, y8)"
    and "DecoderBlock_forward tr (decoder1 g) y8 = Inr t1"
    and "cat1 t1 (pointwise (leaky_relu 0.2) y7) = Inr (decode1 L)"
    and "DecoderBlock_forward tr (decoder2 g) (decode1 L) = Inr t2"
    and "cat1 t2 (pointwise (leaky_relu 0.2) y6) = Inr (decode2 L)"
    and "DecoderBlock_forward tr (decoder3 g) (decode2 L) = Inr t3"
    and "cat1 t3 (pointwise (leaky_relu 0.2) y5) = Inr (decode3 L)"
    and "DecoderBlock_forward tr (decoder4 g) (decode3 L) = Inr t4"
    and "cat1 t4 (pointwise (leaky_relu 0.2) y4) = Inr (decode4 L)"
    and "DecoderBlock_forward tr (decoder5 g) (decode4 L) = Inr t5"
    and "cat1 t5 (pointwise (leaky_relu 0.2) y3) = Inr (decode5 L)"
    and "DecoderBlock_forward tr (decoder6 g) (decode5 L) = Inr t6"
    and "cat1 t6 (pointwise (leaky_relu 0.2) y2) = Inr (decode6 L)"
    and "DecoderBlock_forward tr (decoder7 g) (decode6 L) = Inr t7"
    and "cat1 t7 (pointwise (leaky_relu 0.2) y1) = Inr (decode7 L)"
    and "DecoderBlock_forward tr (decoder8 g) (decode7 L) = Inr (decode8 L)"
    and "Generator_locals.final L = Tanh_forward (decode8 L)"
    and "encode1 L = pointwise (leaky_relu 0.2) y1"
    and "encode2 L = pointwise (leaky_relu 0.2) y2"
    and "encode3 L = pointwise (leaky_relu 0.2) y3"
    and "encode4 L = pointwise (leaky_relu 0.2) y4"
    and "encode5 L = pointwise (leaky_relu 0.2) y5"
    and "encode6 L = pointwise (leaky_relu 0.2) y6"
    and "encode7 L = pointwise (leaky_relu 0.2) y7"
    and "encode8 L = y8"
    and "Generator_forward_locals tr g x = Inr L"
    and "dimN y1 = dimN x" "dimC y1 = 64" "dimH y1 = 128" "dimW y1 = 128"
    and "dimN y2 = dimN x" "dimC y2 = 128" "dimH y2 = 64" "dimW y2 = 64"
    and "dimN y3 = dimN x" "dimC y3 = 256" "dimH y3 = 32" "dimW y3 = 32"
    and "dimN y4 = dimN x" "dimC y4 = 512" "dimH y4 = 16" "dimW y4 = 16"
    and "dimN y5 = dimN x" "dimC y5 = 512" "dimH y5 = 8" "dimW y5 = 8"
    and "dimN y6 = dimN x" "dimC y6 = 512" "dimH y6 = 4" "dimW y6 = 4"
    and "dimN y7 = dimN x" "dimC y7 = 512" "dimH y7 = 2" "dimW y7 = 2"
    and "dimN y8 = dimN x" "dimC y8 = 512" "dimH y8 = 1" "dimW y8 = 1"
    and "dimN t1 = dimN x" "dimC t1 = 512" "dimH t1 = 2" "dimW t1 = 2"
    and "dimN t2 = dimN x" "dimC t2 = 512" "dimH t2 = 4" "dimW t2 = 4"
    and "dimN t3 = dimN x" "dimC t3 = 512" "dimH t3 = 8" "dimW t3 = 8"
    and "dimN t4 = dimN x" "dimC t4 = 512" "dimH t4 = 16" "dimW t4 = 16"
    and "dimN t5 = dimN x" "dimC t5 = 256" "dimH t5 = 32" "dimW t5 = 32"
    and "dimN t6 = dimN x" "dimC t6 = 128" "dimH t6 = 64" "dimW t6 = 64"
    and "dimN t7 = dimN x" "dimC t7 = 64" "dimH t7 = 128" "dimW t7 = 128"
    and "dimN (decode8 L) = dimN x" "dimC (decode8 L) = cout" "dimH (decode8 L) = 256" "dimW (decode8 L) = 256"
proof -
  note I = Generator_init_Inr[OF G]
  obtain y1 where y1: "EncoderBlock_forward tr (encoder1 g) x = Inr (x, y1)"
      "dimN y1 = dimN x" "dimC y1 = 64" "dimH y1 = 128" "dimW y1 = 128"
    using EncoderBlock_step[OF I(1), where x=x and training=tr] X by (auto simp: conv_out_def)
  obtain y2 where y2: "EncoderBlock_forward tr (encoder2 g) y1 = Inr (pointwise (leaky_relu 0.2) y1, y2)"
      "dimN y2 = dimN x" "dimC y2 = 128" "dimH y2 = 64" "dimW y2 = 64"
    using EncoderBlock_step[OF I(2), where x=y1 and training=tr] y1(2-) by (auto simp: conv_out_def)
  obtain y3 where y3: "EncoderBlock_forward tr (encoder3 g) y2 = Inr (pointwise (leaky_relu 0.2) y2, y3)"
      "dimN y3 = dimN x" "dimC y3 = 256" "dimH y3 = 32" "dimW y3 = 32"
    using EncoderBlock_step[OF I(3), where x=y2 and training=tr] y2(2-) by (auto simp: conv_out_def)
  obtain y4 where y4: "EncoderBlock_forward tr (encoder4 g) y3 = Inr (pointwise (leaky_relu 0.2) y3, y4)"
      "dimN y4 = dimN x" "dimC y4 = 512" "dimH y4 = 16" "dimW y4 = 16"
    using EncoderBlock_step[OF I(4), where x=y3 and training=tr] y3(2-) by (auto simp: conv_out_def)
  obtain y5 where y5: "EncoderBlock_forward tr (encoder5 g) y4 = Inr (pointwise (leaky_relu 0.2) y4, y5)"
      "dimN y5 = dimN x" "dimC y5 = 512" "dimH y5 = 8" "dimW y5 = 8"
    using EncoderBlock_step[OF I(5), where x=y4 and training=tr] y4(2-) by (auto simp: conv_out_def)
  obtain y6 where y6: "EncoderBlock_forward tr (encoder6 g) y5 = Inr (pointwise (leaky_relu 0.2) y5, y6)"
      "dimN y6 = dimN x" "dimC y6 = 512" "dimH y6 = 4" "dimW y6 = 4"
    using EncoderBlock_step[OF I(6), where x=y5 and training=tr] y5(2-) by (auto simp: conv_out_def)
  obtain y7 where y7: "EncoderBlock_forward tr (encoder7 g) y6 = Inr (pointwise (leaky_relu 0.2) y6, y7)"
      "dimN y7 = dimN x" "dimC y7 = 512" "dimH y7 = 2" "dimW y7 = 2"
    using EncoderBlock_step[OF I(7), where x=y6 and training=tr] y6(2-) by (auto simp: conv_out_def)
  obtain y8 where y8: "EncoderBlock_forward tr (encoder8 g) y7 = Inr (pointwise (leaky_relu 0.2) y7, y8)"
      "dimN y8 = dimN x" "dimC y8 = 512" "dimH y8 = 1" "dimW y8 = 1"
    using EncoderBlock_step[OF I(8), where x=y7 and training=tr] y7(2-) by (auto simp: conv_out_def)
  obtain t1 where t1: "DecoderBlock_forward tr (decoder1 g) y8 = Inr t1"
      "dimN t1 = dimN x" "dimC t1 = 512" "dimH t1 = 2" "dimW t1 = 2"
    using DecoderBlock_step[OF I(9), where x=y8 and training=tr] y8(2-) by auto
  obtain c1 where c1: "cat1 t1 (pointwise (leaky_relu 0.2) y7) = Inr c1"
      "dimN c1 = dimN x" "dimC c1 = 1024" "dimH c1 = 2" "dimW c1 = 2"
    using cat1_ok[of t1 "pointwise (leaky_relu 0.2) y7"] t1(2-) y7(2-) by auto
  obtain t2 where t2: "DecoderBlock_forward tr (decoder2 g) c1 = Inr t2"
      "dimN t2 = dimN x" "dimC t2 = 512" "dimH t2 = 4" "dimW t2 = 4"
    using DecoderBlock_step[OF I(10), where x=c1 and training=tr] c1(2-) by auto
  obtain c2 where c2: "cat1 t2 (pointwise (leaky_relu 0.2) y6) = Inr c2"
      "dimN c2 = dimN x" "dimC c2 = 1024" "dimH c2 = 4" "dimW c2 = 4"
    using cat1_ok[of t2 "pointwise (leaky_relu 0.2) y6"] t2(2-) y6(2-) by auto
  obtain t3 where t3: "DecoderBlock_forward tr (decoder3 g) c2 = Inr t3"
      "dimN t3 = dimN x" "dimC t3 = 512" "dimH t3 = 8" "dimW t3 = 8"
    using DecoderBlock_step[OF I(11), where x=c2 and training=tr] c2(2-) by auto
  obtain c3 where c3: "cat1 t3 (pointwise (leaky_relu 0.2) y5) = Inr c3"
      "dimN c3 = dimN x" "dimC c3 = 1024" "dimH c3 = 8" "dimW c3 = 8"
    using cat1_ok[of t3 "pointwise (leaky_relu 0.2) y5"] t3(2-) y5(2-) by auto
  obtain t4 where t4: "DecoderBlock_forward tr (decoder4 g) c3 = Inr t4"
      "dimN t4 = dimN x" "dimC t4 = 512" "dimH t4 = 16" "dimW t4 = 16"
    using DecoderBlock_step[OF I(12), where x=c3 and training=tr] c3(2-) by auto
  obtain c4 where c4: "cat1 t4 (pointwise (leaky_relu 0.2) y4) = Inr c4"
      "dimN c4 = dimN x" "dimC c4 = 1024" "dimH c4 = 16" "dimW c4 = 16"
    using cat1_ok[of t4 "pointwise (leaky_relu 0.2) y4"] t4(2-) y4(2-) by auto
  obtain t5 where t5: "DecoderBlock_forward tr (decoder5 g) c4 = Inr t5"
      "dimN t5 = dimN x" "dimC t5 = 256" "dimH t5 = 32" "dimW t5 = 32"
    using DecoderBlock_step[OF I(13), where x=c4 and training=tr] c4(2-) by auto
  obtain c5 where c5: "cat1 t5 (pointwise (leaky_relu 0.2) y3) = Inr c5"
      "dimN c5 = dimN x" "dimC c5 = 512" "dimH c5 = 32" "dimW c5 = 32"
    using cat1_ok[of t5 "pointwise (leaky_relu 0.2) y3"] t5(2-) y3(2-) by auto
  obtain t6 where t6: "DecoderBlock_forward tr (decoder6 g) c5 = Inr t6"
      "dimN t6 = dimN x" "dimC t6 = 128" "dimH t6 = 64" "dimW t6 = 64"
    using DecoderBlock_step[OF I(14), where x=c5 and training=tr] c5(2-) by auto
  obtain c6 where c6: "cat1 t6 (pointwise (leaky_relu 0.2) y2) = Inr c6"
      "dimN c6 = dimN x" "dimC c6 = 256" "dimH c6 = 64" "dimW c6 = 64"
    using cat1_ok[of t6 "pointwise (leaky_relu 0.2) y2"] t6(2-) y2(2-) by auto
  obtain t7 where t7: "DecoderBlock_forward tr (decoder7 g) c6 = Inr t7"
      "dimN t7 = dimN x" "dimC t7 = 64" "dimH t7 = 128" "dimW t7 = 128"
    using DecoderBlock_step[OF I(15), where x=c6 and training=tr] c6(2-) by auto
  obtain c7 where c7: "cat1 t7 (pointwise (leaky_relu 0.2) y1) = Inr c7"
      "dimN c7 = dimN x" "dimC c7 = 128" "dimH c7 = 128" "dimW c7 = 128"
    using cat1_ok[of t7 "pointwise (leaky_relu 0.2) y1"] t7(2-) y1(2-) by auto
  obtain c8 where c8: "DecoderBlock_forward tr (decoder8 g) c7 = Inr c8"
      "dimN c8 = dimN x" "dimC c8 = cout" "dimH c8 = 256" "dimW c8 = 256"
    using DecoderBlock_step[OF I(16), where x=c7 and training=tr] c7(2-) by auto
  define L where "L = \<lparr>encode1 = pointwise (leaky_relu 0.2) y1, encode2 = pointwise (leaky_relu 0.2) y2, encode3 = pointwise (leaky_relu 0.2) y3, encode4 = pointwise (leaky_relu 0.2) y4, encode5 = pointwise (leaky_relu 0.2) y5, encode6 = pointwise (leaky_relu 0.2) y6, encode7 = pointwise (leaky_relu 0.2) y7, encode8 = y8,
       decode1 = c1, decode2 = c2, decode3 = c3, decode4 = c4, decode5 = c5, decode6 = c6, decode7 = c7, decode8 = c8,
       Generator_locals.final = Tanh_forward c8\<rparr>"
  have loc: "Generator_forward_locals tr g x = Inr L"
    unfolding Generator_forward_locals_def L_def
    by (simp add: y1(1) y2(1) y3(1) y4(1) y5(1) y6(1) y7(1) y8(1) t1(1) t2(1) t3(1) t4(1) t5(1) t6(1) t7(1) c1(1)[simplified] c2(1)[simplified] c3(1)[simplified] c4(1)[simplified] c5(1)[simplified] c6(1)[simplified] c7(1)[simplified] c8(1))
  have Lf: "decode1 L = c1"
    "decode2 L = c2"
    "decode3 L = c3"
    "decode4 L = c4"
    "decode5 L = c5"
    "decode6 L = c6"
    "decode7 L = c7"
    "decode8 L = c8"
    "encode1 L = pointwise (leaky_relu 0.2) y1"
    "encode2 L = pointwise (leaky_relu 0.2) y2"
    "encode3 L = pointwise (leaky_relu 0.2) y3"
    "encode4 L = pointwise (leaky_relu 0.2) y4"
    "encode5 L = pointwise (leaky_relu 0.2) y5"
    "encode6 L = pointwise (leaky_relu 0.2) y6"
    "encode7 L = pointwise (leaky_relu 0.2) y7"
    "encode8 L = y8"
    "Generator_locals.final L = Tanh_forward c8"
    by (simp_all add: L_def)
  show ?thesis
    by (rule that[OF y1(1)
      y2(1)
      y3(1)
      y4(1)
      y5(1)
      y6(1)
      y7(1)
      y8(1)
      t1(1)
      c1(1)[folded Lf(1)]
      t2(1)[folded Lf(1)]
      c2(1)[folded Lf(2)]
      t3(1)[folded Lf(2)]
      c3(1)[folded Lf(3)]
      t4(1)[folded Lf(3)]
      c4(1)[folded Lf(4)]
      t5(1)[folded Lf(4)]
      c5(1)[folded Lf(5)]
      t6(1)[folded Lf(5)]
      c6(1)[folded Lf(6)]
      t7(1)[folded Lf(6)]
      c7(1)[folded Lf(7)]
      c8(1)[folded Lf(7) Lf(8)]
      Lf(17)[folded Lf(8)]
      Lf(9)
      Lf(10)
      Lf(11)
      Lf(12)
      Lf(13)
      Lf(14)
      Lf(15)
      Lf(16)
      loc
      y1(2-)
      y2(2-)
      y3(2-)
      y4(2-)
      y5(2-)
      y6(2-)
      y7(2-)
      y8(2-)
      t1(2-)
      t2(2-)
      t3(2-)
      t4(2-)
      t5(2-)
      t6(2-)
      t7(2-)
      c8(2-)[folded Lf(8)]])
qed

lemma ex_input_dims [simp]:
  "dimN ex_input = 1" "dimC ex_input = 3" "dimH ex_input = 256" "dimW ex_input = 256"
  by (simp_all add: ex_input_def)

lemma Generator_init_succeeds:
  assumes n: "nrm = ''batch'' \<or> nrm = ''instance''"
  shows "\<exists>g. Generator_init ps cin cout ub dp nrm = Inr g"
proof -
  have e: "\<exists>b. EncoderBlock_init q a c k s pad d gr ub dn nrm da = Inr b" for q a c k s pad d gr dn da
    using n by (rule EncoderBlock_init_succeeds)
  have e': "\<exists>b. EncoderBlock_init q a c k s pad d gr ub False m da = Inr b" for q a c k s pad d gr m da
    by (rule EncoderBlock_init_succeeds) simp
  have d: "\<exists>b. DecoderBlock_init q a c k s pad ub dn nrm da pr = Inr b" for q a c k s pad dn da pr
    using n by (rule DecoderBlock_init_succeeds)
  have d': "\<exists>b. DecoderBlock_init q a c k s pad ub False m da pr = Inr b" for q a c k s pad m da pr
    by (rule DecoderBlock_init_succeeds) simp
  obtain b1 where b1: "EncoderBlock_init (ps ''encoder1'') cin 64 4 2 1 1 1 ub False ''batch'' False = Inr b1"
    using e' by blast
  obtain b2 where b2: "EncoderBlock_init (ps ''encoder2'') 64 128 4 2 1 1 1 ub True nrm True = Inr b2"
    using e by blast
  obtain b3 where b3: "EncoderBlock_init (ps ''encoder3'') 128 256 4 2 1 1 1 ub True nrm True = Inr b3"
    using e by blast
  obtain b4 where b4: "EncoderBlock_init (ps ''encoder4'') 256 512 4 2 1 1 1 ub True nrm True = Inr b4"
    using e by blast
  obtain b5 where b5: "EncoderBlock_init (ps ''encoder5'') 512 512 4 2 1 1 1 ub True nrm True = Inr b5"
    using e by blast
  obtain b6 where b6: "EncoderBlock_init (ps ''encoder6'') 512 512 4 2 1 1 1 ub True nrm True = Inr b6"
    using e by blast
  obtain b7 where b7: "EncoderBlock_init (ps ''encoder7'') 512 512 4 2 1 1 1 ub True nrm True = Inr b7"
    using e by blast
  obtain b8 where b8: "EncoderBlock_init (ps ''encoder8'') 512 512 4 2 1 1 1 ub False ''batch'' True = Inr b8"
    using e' by blast
  obtain c1 where c1: "DecoderBlock_init (ps ''decoder1'') 512 512 4 2 1 ub True nrm True 0 = Inr c1"
    using d by blast
  obtain c2 where c2: "DecoderBlock_init (ps ''decoder2'') 1024 512 4 2 1 ub True nrm True dp = Inr c2"
    using d by blast
  obtain c3 where c3: "DecoderBlock_init (ps ''decoder3'') 1024 512 4 2 1 ub True nrm True dp = Inr c3"
    using d by blast
  obtain c4 where c4: "DecoderBlock_init (ps ''decoder4'') 1024 512 4 2 1 ub True nrm True dp = Inr c4"
    using d by blast
  obtain c5 where c5: "DecoderBlock_init (ps ''decoder5'') 1024 256 4 2 1 ub True nrm True 0 = Inr c5"
    using d by blast
  obtain c6 where c6: "DecoderBlock_init (ps ''decoder6'') 512 128 4 2 1 ub True nrm True 0 = Inr c6"
    using d by blast
  obtain c7 where c7: "DecoderBlock_init (ps ''decoder7'') 256 64 4 2 1 ub True nrm True 0 = Inr c7"
    using d by blast
  obtain c8 where c8: "DecoderBlock_init (ps ''decoder8'') 128 cout 4 2 1 ub False ''batch'' True 0 = Inr c8"
    using d' by blast
  show ?thesis
    unfolding Generator_init_def b1 b2 b3 b4 b5 b6 b7 b8 c1 c2 c3 c4 c5 c6 c7 c8 and_then_Inr
    by blast
qed

section \<open>Construction and run of the discriminators\<close>

lemma Discriminator_init_Inr:
  assumes "Discriminator_init ps cin cout ub nrm = Inr d"
  shows "EncoderBlock_init (ps ''disc1'') (cin * 2) 64 4 2 1 1 1 ub False ''batch'' False = Inr (Discriminator.disc1 d)"
    and "EncoderBlock_init (ps ''disc2'') 64 128 4 2 1 1 1 ub True nrm True = Inr (Discriminator.disc2 d)"
    and "EncoderBlock_init (ps ''disc3'') 128 256 4 2 1 1 1 ub True nrm True = Inr (Discriminator.disc3 d)"
    and "EncoderBlock_init (ps ''disc4'') 256 512 4 1 1 1 1 ub True nrm True = Inr (Discriminator.disc4 d)"
    and "EncoderBlock_init (ps ''disc5'') 512 cout 4 1 1 1 1 ub False ''batch'' True = Inr (Discriminator.disc5 d)"
  using assms unfolding Discriminator_init_def and_then_def
  by (auto split: sum.splits)

lemma Discriminator_init_succeeds:
  assumes n: "nrm = ''batch'' \<or> nrm = ''instance''"
  shows "\<exists>d. Discriminator_init ps cin cout ub nrm = Inr d"
proof -
  have e: "\<exists>b. EncoderBlock_init q a c k s pad dl gr ub dn nrm da = Inr b" for q a c k s pad dl gr dn da
    using n by (rule EncoderBlock_init_succeeds)
  have e': "\<exists>b. EncoderBlock_init q a c k s pad dl gr ub False m da = Inr b" for q a c k s pad dl gr m da
    by (rule EncoderBlock_init_succeeds) simp
  obtain b1 where b1: "EncoderBlock_init (ps ''disc1'') (cin * 2) 64 4 2 1 1 1 ub False ''batch'' False = Inr b1"
    using e' by blast
  obtain b2 where b2: "EncoderBlock_init (ps ''disc2'') 64 128 4 2 1 1 1 ub True nrm True = Inr b2"
    using e by blast
  obtain b3 where b3: "EncoderBlock_init (ps ''disc3'') 128 256 4 2 1 1 1 ub True nrm True = Inr b3"
    using e by blast
  obtain b4 where b4: "EncoderBlock_init (ps ''disc4'') 256 512 4 1 1 1 1 ub True nrm True = Inr b4"
    using e by blast
  obtain b5 where b5: "EncoderBlock_init (ps ''disc5'') 512 cout 4 1 1 1 1 ub False ''batch'' True = Inr b5"
    using e' by blast
  show ?thesis
    unfolding Discriminator_init_def b1 b2 b3 b4 b5 and_then_Inr
    by blast
qed

lemma Discriminator_forward_locals_trace:
  assumes D: "Discriminator_init ps cin cout ub nrm = Inr d"
    and X: "dimC x = cin" "dimH x = 256" "dimW x = 256"
    and Rf: "dimN ref = dimN x" "dimC ref = cin" "dimH ref = 256" "dimW ref = 256"
  obtains c y1 y2 y3 y4 y5 L where
    "cat1 x ref = Inr c"
    and "dimN c = dimN x" "dimC c = cin * 2" "dimH c = 256" "dimW c = 256"
    and "EncoderBlock_forward tr (Discriminator.disc1 d) c = Inr (c, y1)"
    and "EncoderBlock_forward tr (Discriminator.disc2 d) y1 = Inr (pointwise (leaky_relu 0.2) y1, y2)"
    and "EncoderBlock_forward tr (Discriminator.disc3 d) y2 = Inr (pointwise (leaky_relu 0.2) y2, y3)"
    and "EncoderBlock_forward tr (Discriminator.disc4 d) y3 = Inr (pointwise (leaky_relu 0.2) y3, y4)"
    and "EncoderBlock_forward tr (Discriminator.disc5 d) y4 = Inr (pointwise (leaky_relu 0.2) y4, y5)"
    and "dimN y1 = dimN x" "dimC y1 = 64" "dimH y1 = 128" "dimW y1 = 128"
    and "dimN y2 = dimN x" "dimC y2 = 128" "dimH y2 = 64" "dimW y2 = 64"
    and "dimN y3 = dimN x" "dimC y3 = 256" "dimH y3 = 32" "dimW y3 = 32"
    and "dimN y4 = dimN x" "dimC y4 = 512" "dimH y4 = 31" "dimW y4 = 31"
    and "dimN y5 = dimN x" "dimC y5 = cout" "dimH y5 = 30" "dimW y5 = 30"
    and "Discriminator_forward_locals tr d x ref = Inr L"
    and "Discriminator_locals.x_ref L = c"
    and "Discriminator_locals.final L = Sigmoid_forward y5"
proof -
  note I = Discriminator_init_Inr[OF D]
  obtain c where c: "cat1 x ref = Inr c" "dimN c = dimN x" "dimC c = cin * 2" "dimH c = 256" "dimW c = 256"
    using cat1_ok[of x ref] X Rf by auto
  obtain y1 where y1: "EncoderBlock_forward tr (Discriminator.disc1 d) c = Inr (c, y1)"
      "dimN y1 = dimN x" "dimC y1 = 64" "dimH y1 = 128" "dimW y1 = 128"
    using EncoderBlock_step[OF I(1), where x=c and training=tr] c(2-) by (auto simp: conv_out_def)
  obtain y2 where y2: "EncoderBlock_forward tr (Discriminator.disc2 d) y1 = Inr (pointwise (leaky_relu 0.2) y1, y2)"
      "dimN y2 = dimN x" "dimC y2 = 128" "dimH y2 = 64" "dimW y2 = 64"
    using EncoderBlock_step[OF I(2), where x=y1 and training=tr] y1(2-) by (auto simp: conv_out_def)
  obtain y3 where y3: "EncoderBlock_forward tr (Discriminator.disc3 d) y2 = Inr (pointwise (leaky_relu 0.2) y2, y3)"
      "dimN y3 = dimN x" "dimC y3 = 256" "dimH y3 = 32" "dimW y3 = 32"
    using EncoderBlock_step[OF I(3), where x=y2 and training=tr] y2(2-) by (auto simp: conv_out_def)
  obtain y4 where y4: "EncoderBlock_forward tr (Discriminator.disc4 d) y3 = Inr (pointwise (leaky_relu 0.2) y3, y4)"
      "dimN y4 = dimN x" "dimC y4 = 512" "dimH y4 = 31" "dimW y4 = 31"
    using EncoderBlock_step[OF I(4), where x=y3 and training=tr] y3(2-) by (auto simp: conv_out_def)
  obtain y5 where y5: "EncoderBlock_forward tr (Discriminator.disc5 d) y4 = Inr (pointwise (leaky_relu 0.2) y4, y5)"
      "dimN y5 = dimN x" "dimC y5 = cout" "dimH y5 = 30" "dimW y5 = 30"
    using EncoderBlock_step[OF I(5), where x=y4 and training=tr] y4(2-) by (auto simp: conv_out_def)
  define L where "L = \<lparr>Discriminator_locals.x_ref = c, Discriminator_locals.d1 = pointwise (leaky_relu 0.2) y1, Discriminator_locals.d2 = pointwise (leaky_relu 0.2) y2, Discriminator_locals.d3 = pointwise (leaky_relu 0.2) y3, Discriminator_locals.d4 = pointwise (leaky_relu 0.2) y4, Discriminator_locals.d5 = y5,
       Discriminator_locals.final = Sigmoid_forward y5\<rparr>"
  have loc: "Discriminator_forward_locals tr d x ref = Inr L"
    unfolding Discriminator_forward_locals_def L_def
    by (simp add: c(1) y1(1) y2(1) y3(1) y4(1) y5(1))
  have Lf: "Discriminator_locals.x_ref L = c" "Discriminator_locals.final L = Sigmoid_forward y5"
    by (simp_all add: L_def)
  show ?thesis
    by (rule that[OF c y1(1) y2(1) y3(1) y4(1) y5(1) y1(2-) y2(2-) y3(2-) y4(2-) y5(2-) loc Lf])
qed

lemma Discriminator286_init_Inr:
  assumes "Discriminator286_init ps cin cout ub nrm = Inr d"
  shows "EncoderBlock_init (ps ''disc1'') (cin * 2) 64 4 2 1 1 1 ub False ''batch'' False = Inr (Discriminator286.disc1 d)"
    and "EncoderBlock_init (ps ''disc2'') 64 128 4 2 1 1 1 ub True nrm True = Inr (Discriminator286.disc2 d)"
    and "EncoderBlock_init (ps ''disc3'') 128 256 4 2 1 1 1 ub True nrm True = Inr (Discriminator286.disc3 d)"
    and "EncoderBlock_init (ps ''disc4'') 256 512 4 2 1 1 1 ub True nrm True = Inr (Discriminator286.disc4 d)"
    and "EncoderBlock_init (ps ''disc5'') 512 512 4 2 1 1 1 ub True nrm True = Inr (Discriminator286.disc5 d)"
    and "EncoderBlock_init (ps ''disc6'') 512 512 4 1 1 1 1 ub True nrm True = Inr (Discriminator286.disc6 d)"
    and "EncoderBlock_init (ps ''disc7'') 512 cout 4 1 1 1 1 ub False ''batch'' True = Inr (Discriminator286.disc7 d)"
  using assms unfolding Discriminator286_init_def and_then_def
  by (auto split: sum.splits)

lemma Discriminator286_init_succeeds:
  assumes n: "nrm = ''batch'' \<or> nrm = ''instance''"
  shows "\<exists>d. Discriminator286_init ps cin cout ub nrm = Inr d"
proof -
  have e: "\<exists>b. EncoderBlock_init q a c k s pad dl gr ub dn nrm da = Inr b" for q a c k s pad dl gr dn da
    using n by (rule EncoderBlock_init_succeeds)
  have e': "\<exists>b. EncoderBlock_init q a c k s pad dl gr ub False m da = Inr b" for q a c k s pad dl gr m da
    by (rule EncoderBlock_init_succeeds) simp
  obtain b1 where b1: "EncoderBlock_init (ps ''disc1'') (cin * 2) 64 4 2 1 1 1 ub False ''batch'' False = Inr b1"
    using e' by blast
  obtain b2 where b2: "EncoderBlock_init (ps ''disc2'') 64 128 4 2 1 1 1 ub True nrm True = Inr b2"
    using e by blast
  obtain b3 where b3: "EncoderBlock_init (ps ''disc3'') 128 256 4 2 1 1 1 ub True nrm True = Inr b3"
    using e by blast
  obtain b4 where b4: "EncoderBlock_init (ps ''disc4'') 256 512 4 2 1 1 1 ub True nrm True = Inr b4"
    using e by blast
  obtain b5 where b5: "EncoderBlock_init (ps ''disc5'') 512 512 4 2 1 1 1 ub True nrm True = Inr b5"
    using e by blast
  obtain b6 where b6: "EncoderBlock_init (ps ''disc6'') 512 512 4 1 1 1 1 ub True nrm True = Inr b6"
    using e by blast
  obtain b7 where b7: "EncoderBlock_init (ps ''disc7'') 512 cout 4 1 1 1 1 ub False ''batch'' True = Inr b7"
    using e' by blast
  show ?thesis
    unfolding Discriminator286_init_def b1 b2 b3 b4 b5 b6 b7 and_then_Inr
    by blast
qed

lemma Discriminator286_forward_locals_trace:
  assumes D: "Discriminator286_init ps cin cout ub nrm = Inr d"
    and X: "dimC x = cin" "dimH x = 256" "dimW x = 256"
    and Rf: "dimN ref = dimN x" "dimC ref = cin" "dimH ref = 256" "dimW ref = 256"
  obtains c y1 y2 y3 y4 y5 y6 y7 L where
    "cat1 x ref = Inr c"
    and "dimN c = dimN x" "dimC c = cin * 2" "dimH c = 256" "dimW c = 256"
    and "EncoderBlock_forward tr (Discriminator286.disc1 d) c = Inr (c, y1)"
    and "EncoderBlock_forward tr (Discriminator286.disc2 d) y1 = Inr (pointwise (leaky_relu 0.2) y1, y2)"
    and "EncoderBlock_forward tr (Discriminator286.disc3 d) y2 = Inr (pointwise (leaky_relu 0.2) y2, y3)"
    and "EncoderBlock_forward tr (Discriminator286.disc4 d) y3 = Inr (pointwise (leaky_relu 0.2) y3, y4)"
    and "EncoderBlock_forward tr (Discriminator286.disc5 d) y4 = Inr (pointwise (leaky_relu 0.2) y4, y5)"
    and "EncoderBlock_forward tr (Discriminator286.disc6 d) y5 = Inr (pointwise (leaky_relu 0.2) y5, y6)"
    and "EncoderBlock_forward tr (Discriminator286.disc7 d) y6 = Inr (pointwise (leaky_relu 0.2) y6, y7)"
    and "dimN y1 = dimN x" "dimC y1 = 64" "dimH y1 = 128" "dimW y1 = 128"
    and "dimN y2 = dimN x" "dimC y2 = 128" "dimH y2 = 64" "dimW y2 = 64"
    and "dimN y3 = dimN x" "dimC y3 = 256" "dimH y3 = 32" "dimW y3 = 32"
    and "dimN y4 = dimN x" "dimC y4 = 512" "dimH y4 = 16" "dimW y4 = 16"
    and "dimN y5 = dimN x" "dimC y5 = 512" "dimH y5 = 8" "dimW y5 = 8"
    and "dimN y6 = dimN x" "dimC y6 = 512" "dimH y6 = 7" "dimW y6 = 7"
    and "dimN y7 = dimN x" "dimC y7 = cout" "dimH y7 = 6" "dimW y7 = 6"
    and "Discriminator286_forward_locals tr d x ref = Inr L"
    and "Discriminator286_locals.x_ref L = c"
    and "Discriminator286_locals.final L = Sigmoid_forward y7"
proof -
  note I = Discriminator286_init_Inr[OF D]
  obtain c where c: "cat1 x ref = Inr c" "dimN c = dimN x" "dimC c = cin * 2" "dimH c = 256" "dimW c = 256"
    using cat1_ok[of x ref] X Rf by auto
  obtain y1 where y1: "EncoderBlock_forward tr (Discriminator286.disc1 d) c = Inr (c, y1)"
      "dimN y1 = dimN x" "dimC y1 = 64" "dimH y1 = 128" "dimW y1 = 128"
    using EncoderBlock_step[OF I(1), where x=c and training=tr] c(2-) by (auto simp: conv_out_def)
  obtain y2 where y2: "EncoderBlock_forward tr (Discriminator286.disc2 d) y1 = Inr (pointwise (leaky_relu 0.2) y1, y2)"
      "dimN y2 = dimN x" "dimC y2 = 128" "dimH y2 = 64" "dimW y2 = 64"
    using EncoderBlock_step[OF I(2), where x=y1 and training=tr] y1(2-) by (auto simp: conv_out_def)
  obtain y3 where y3: "EncoderBlock_forward tr (Discriminator286.disc3 d) y2 = Inr (pointwise (leaky_relu 0.2) y2, y3)"
      "dimN y3 = dimN x" "dimC y3 = 256" "dimH y3 = 32" "dimW y3 = 32"
    using EncoderBlock_step[OF I(3), where x=y2 and training=tr] y2(2-) by (auto simp: conv_out_def)
  obtain y4 where y4: "EncoderBlock_forward tr (Discriminator286.disc4 d) y3 = Inr (pointwise (leaky_relu 0.2) y3, y4)"
      "dimN y4 = dimN x" "dimC y4 = 512" "dimH y4 = 16" "dimW y4 = 16"
    using EncoderBlock_step[OF I(4), where x=y3 and training=tr] y3(2-) by (auto simp: conv_out_def)
  obtain y5 where y5: "EncoderBlock_forward tr (Discriminator286.disc5 d) y4 = Inr (pointwise (leaky_relu 0.2) y4, y5)"
      "dimN y5 = dimN x" "dimC y5 = 512" "dimH y5 = 8" "dimW y5 = 8"
    using EncoderBlock_step[OF I(5), where x=y4 and training=tr] y4(2-) by (auto simp: conv_out_def)
  obtain y6 where y6: "EncoderBlock_forward tr (Discriminator286.disc6 d) y5 = Inr (pointwise (leaky_relu 0.2) y5, y6)"
      "dimN y6 = dimN x" "dimC y6 = 512" "dimH y6 = 7" "dimW y6 = 7"
    using EncoderBlock_step[OF I(6), where x=y5 and training=tr] y5(2-) by (auto simp: conv_out_def)
  obtain y7 where y7: "EncoderBlock_forward tr (Discriminator286.disc7 d) y6 = Inr (pointwise (leaky_relu 0.2) y6, y7)"
      "dimN y7 = dimN x" "dimC y7 = cout" "dimH y7 = 6" "dimW y7 = 6"
    using EncoderBlock_step[OF I(7), where x=y6 and training=tr] y6(2-) by (auto simp: conv_out_def)
  define L where "L = \<lparr>Discriminator286_locals.x_ref = c, Discriminator286_locals.d1 = pointwise (leaky_relu 0.2) y1, Discriminator286_locals.d2 = pointwise (leaky_relu 0.2) y2, Discriminator286_locals.d3 = pointwise (leaky_relu 0.2) y3, Discriminator286_locals.d4 = pointwise (leaky_relu 0.2) y4, Discriminator286_locals.d5 = pointwise (leaky_relu 0.2) y5, Discriminator286_locals.d6 = pointwise (leaky_relu 0.2) y6, Discriminator286_locals.d7 = y7,
       Discriminator286_locals.final = Sigmoid_forward y7\<rparr>"
  have loc: "Discriminator286_forward_locals tr d x ref = Inr L"
    unfolding Discriminator286_forward_locals_def L_def
    by (simp add: c(1) y1(1) y2(1) y3(1) y4(1) y5(1) y6(1) y7(1))
  have Lf: "Discriminator286_locals.x_ref L = c" "Discriminator286_locals.final L = Sigmoid_forward y7"
    by (simp_all add: L_def)
  show ?thesis
    by (rule that[OF c y1(1) y2(1) y3(1) y4(1) y5(1) y6(1) y7(1) y1(2-) y2(2-) y3(2-) y4(2-) y5(2-) y6(2-) y7(2-) loc Lf])
qed

section \<open>Generator: output shape and range\<close>

text \<open>
  Claim C5. A generator built with three input and three output channels (any bias
  flag, dropout probability and recognized normalization mode), run in either mode
  on a tensor of shape (1,3,256,256), returns a tensor of shape (1,3,256,256) whose
  values all lie in [-1,1]; the result is the hyperbolic tangent of the last
  decoder's output.
\<close>

theorem Generator_forward_shape_range:
  assumes G: "Generator_init ps 3 3 use_bias dprob nrm = Inr g"
    and X: "dimN x = 1" "dimC x = 3" "dimH x = 256" "dimW x = 256"
  shows "\<exists>y L. Generator_forward training g x = Inr y
           \<and> dimN y = 1 \<and> dimC y = 3 \<and> dimH y = 256 \<and> dimW y = 256
           \<and> (\<forall>n c h w. - 1 \<le> val y n c h w \<and> val y n c h w \<le> 1)
           \<and> Generator_forward_locals training g x = Inr L
           \<and> DecoderBlock_forward training (decoder8 g) (decode7 L) = Inr (decode8 L)
           \<and> y = Tanh_forward (decode8 L)"
proof -
  from G X(2-) obtain y1 y2 y3 y4 y5 y6 y7 y8 t1 t2 t3 t4 t5 t6 t7 L
    where loc: "Generator_forward_locals training g x = Inr L"
      and fin: "Generator_locals.final L = Tanh_forward (decode8 L)"
      and t8: "DecoderBlock_forward training (decoder8 g) (decode7 L) = Inr (decode8 L)"
      and d8: "dimN (decode8 L) = dimN x" "dimC (decode8 L) = 3"
        "dimH (decode8 L) = 256" "dimW (decode8 L) = 256"
    by (rule Generator_forward_locals_trace[where tr = training])
  have fw: "Generator_forward training g x = Inr (Tanh_forward (decode8 L))"
    by (simp add: Generator_forward_def loc fin)
  have rng: "\<forall>n c h w. - 1 \<le> val (Tanh_forward (decode8 L)) n c h w
                    \<and> val (Tanh_forward (decode8 L)) n c h w \<le> 1"
    by (simp add: Tanh_forward_def tanh_range)
  show ?thesis
    using fw rng loc t8 d8 X(1)
    by (intro exI[of _ "Tanh_forward (decode8 L)"] exI[of _ L]) (simp add: Tanh_forward_def)
qed

theorem Generator_forward_shape_range_witness:
  "\<exists>g y. Generator_init ex_params 3 3 False (1 / 2) ''batch'' = Inr g
     \<and> Generator_forward True g ex_input = Inr y
     \<and> dimN y = 1 \<and> dimC y = 3 \<and> dimH y = 256 \<and> dimW y = 256
     \<and> (\<forall>n c h w. - 1 \<le> val y n c h w \<and> val y n c h w \<le> 1)"
proof -
  obtain g where g: "Generator_init ex_params 3 3 False (1 / 2) ''batch'' = Inr g"
    using Generator_init_succeeds[of "''batch''"] by blast
  show ?thesis
    using Generator_forward_shape_range[OF g, of ex_input True] g by auto
qed

lemma cat1_val:
  assumes "cat1 a b = Inr c"
  shows "val c n k h w = (if k < dimC a then val a n k h w else val b n (k - dimC a) h w)"
  using assms by (auto simp: cat1_def split: if_splits)

section \<open>Discriminator: output shape and range\<close>

text \<open>
  Claim C4. A 70x70 discriminator built with three input channels and one output
  channel, run in either mode on two tensors of shape (1,3,256,256), concatenates
  them along the channel axis as (candidate, reference): channels 0..2 of the
  concatenation \<open>c\<close> are the candidate, channels 3..5 the reference. The five
  blocks run in turn from \<open>c\<close>, each on what the one before returned, and the
  result of \<^verbatim>\<open>forward\<close> is the sigmoid of what the fifth block returns: a
  tensor of shape (1,1,30,30) whose values all lie in [0,1].
\<close>

theorem Discriminator_forward_shape_range:
  assumes D: "Discriminator_init ps 3 1 use_bias nrm = Inr d"
    and X: "dimN x = 1" "dimC x = 3" "dimH x = 256" "dimW x = 256"
    and Rf: "dimN ref = 1" "dimC ref = 3" "dimH ref = 256" "dimW ref = 256"
  shows "\<exists>c y1 y2 y3 y4 y5 L.
             cat1 x ref = Inr c
           \<and> dimC c = 6
           \<and> (\<forall>n k h w. val c n k h w
                 = (if k < 3 then val x n k h w else val ref n (k - 3) h w))
           \<and> EncoderBlock_forward training (Discriminator.disc1 d) c = Inr (c, y1)
           \<and> EncoderBlock_forward training (Discriminator.disc2 d) y1
                 = Inr (pointwise (leaky_relu 0.2) y1, y2)
           \<and> EncoderBlock_forward training (Discriminator.disc3 d) y2
                 = Inr (pointwise (leaky_relu 0.2) y2, y3)
           \<and> EncoderBlock_forward training (Discriminator.disc4 d) y3
                 = Inr (pointwise (leaky_relu 0.2) y3, y4)
           \<and> EncoderBlock_forward training (Discriminator.disc5 d) y4
                 = Inr (pointwise (leaky_relu 0.2) y4, y5)
           \<and> Discriminator_forward training d x ref = Inr (Sigmoid_forward y5)
           \<and> dimN (Sigmoid_forward y5) = 1 \<and> dimC (Sigmoid_forward y5) = 1
           \<and> dimH (Sigmoid_forward y5) = 30 \<and> dimW (Sigmoid_forward y5) = 30
           \<and> (\<forall>n k h w. 0 \<le> val (Sigmoid_forward y5) n k h w
                         \<and> val (Sigmoid_forward y5) n k h w \<le> 1)
           \<and> Discriminator_forward_locals training d x ref = Inr L
           \<and> Discriminator_locals.x_ref L = c
           \<and> Discriminator_locals.final L = Sigmoid_forward y5"
proof -
  from D X(2-) Rf(2-) obtain c y1 y2 y3 y4 y5 L
    where c: "cat1 x ref = Inr c" "dimC c = 3 * 2"
      and y1: "EncoderBlock_forward training (Discriminator.disc1 d) c = Inr (c, y1)"
      and y2: "EncoderBlock_forward training (Discriminator.disc2 d) y1
                 = Inr (pointwise (leaky_relu 0.2) y1, y2)"
      and y3: "EncoderBlock_forward training (Discriminator.disc3 d) y2
                 = Inr (pointwise (leaky_relu 0.2) y2, y3)"
      and y4: "EncoderBlock_forward training (Discriminator.disc4 d) y3
                 = Inr (pointwise (leaky_relu 0.2) y3, y4)"
      and y5: "EncoderBlock_forward training (Discriminator.disc5 d) y4
                 = Inr (pointwise (leaky_relu 0.2) y4, y5)"
      and d5: "dimN y5 = dimN x" "dimC y5 = 1" "dimH y5 = 30" "dimW y5 = 30"
      and loc: "Discriminator_forward_locals training d x ref = Inr L"
      and Lf: "Discriminator_locals.x_ref L = c" "Discriminator_locals.final L = Sigmoid_forward y5"
    using X(1) Rf(1) by (auto elim: Discriminator_forward_locals_trace[where tr = training])
  have fw: "Discriminator_forward training d x ref = Inr (Sigmoid_forward y5)"
    by (simp add: Discriminator_forward_def loc Lf)
  have rng: "\<forall>n k h w. 0 \<le> val (Sigmoid_forward y5) n k h w \<and> val (Sigmoid_forward y5) n k h w \<le> 1"
    by (simp add: Sigmoid_forward_def sigmoid_range)
  have cv: "\<forall>n k h w. val c n k h w = (if k < 3 then val x n k h w else val ref n (k - 3) h w)"
    using cat1_val[OF c(1)] X(2) by simp
  have c6: "dimC c = 6" using c(2) by simp
  have ds: "dimN (Sigmoid_forward y5) = 1" "dimC (Sigmoid_forward y5) = 1"
    "dimH (Sigmoid_forward y5) = 30" "dimW (Sigmoid_forward y5) = 30"
    using d5 X(1) by (simp_all add: Sigmoid_forward_def)
  show ?thesis
  proof (rule exI[of _ c], rule exI[of _ y1], rule exI[of _ y2], rule exI[of _ y3],
      rule exI[of _ y4], rule exI[of _ y5], rule exI[of _ L], intro conjI)
  qed (rule c(1) c6 cv y1 y2 y3 y4 y5 fw ds rng loc Lf)+
qed

theorem Discriminator_forward_shape_range_witness:
  "\<exists>d y. Discriminator_init ex_params 3 1 False ''batch'' = Inr d
     \<and> Discriminator_forward True d ex_input ex_input = Inr y
     \<and> dimN y = 1 \<and> dimC y = 1 \<and> dimH y = 30 \<and> dimW y = 30
     \<and> (\<forall>n c h w. 0 \<le> val y n c h w \<and> val y n c h w \<le> 1)"
proof -
  obtain d where d: "Discriminator_init ex_params 3 1 False ''batch'' = Inr d"
    using Discriminator_init_succeeds[of "''batch''"] by blast
  show ?thesis
    using Discriminator_forward_shape_range[OF d, of ex_input ex_input True] d by auto
qed

section \<open>Discriminator286: output shape and range\<close>

lemma Discriminator286_forward_sizes:
  assumes D: "Discriminator286_init ps cin cout use_bias nrm = Inr d"
    and X: "dimC x = cin" "dimH x = 256" "dimW x = 256"
    and Rf: "dimN ref = dimN x" "dimC ref = cin" "dimH ref = 256" "dimW ref = 256"
  shows "\<exists>z. Discriminator286_forward training d x ref = Inr (Sigmoid_forward z)
           \<and> dimN z = dimN x \<and> dimC z = cout \<and> dimH z = 6 \<and> dimW z = 6"
proof -
  from D X Rf obtain c y1 y2 y3 y4 y5 y6 y7 L
    where y7: "dimN y7 = dimN x" "dimC y7 = cout" "dimH y7 = 6" "dimW y7 = 6"
      and loc: "Discriminator286_forward_locals training d x ref = Inr L"
      and Lf: "Discriminator286_locals.final L = Sigmoid_forward y7"
    by (auto elim: Discriminator286_forward_locals_trace[where tr = training])
  have "Discriminator286_forward training d x ref = Inr (Sigmoid_forward y7)"
    by (simp add: Discriminator286_forward_def loc Lf)
  then show ?thesis using y7 by blast
qed

text \<open>
  Claim C1, as the code has it. A 286x286 discriminator built with three input
  channels and one output channel, run in either mode on two tensors of shape
  (1,3,256,256), returns a tensor of shape (1,1,6,6) whose values all lie in [0,1].
  Five blocks of stride 2 take 256 to 8, and the two blocks of stride 1 take 8 to 7
  and 7 to 6.
\<close>

theorem Discriminator286_forward_shape_range:
  assumes D: "Discriminator286_init ps 3 1 use_bias nrm = Inr d"
    and X: "dimN x = 1" "dimC x = 3" "dimH x = 256" "dimW x = 256"
    and Rf: "dimN ref = 1" "dimC ref = 3" "dimH ref = 256" "dimW ref = 256"
  shows "\<exists>y. Discriminator286_forward training d x ref = Inr y
           \<and> dimN y = 1 \<and> dimC y = 1 \<and> dimH y = 6 \<and> dimW y = 6
           \<and> (\<forall>n c h w. 0 \<le> val y n c h w \<and> val y n c h w \<le> 1)"
proof -
  obtain z where z: "Discriminator286_forward training d x ref = Inr (Sigmoid_forward z)"
    "dimN z = dimN x" "dimC z = 1" "dimH z = 6" "dimW z = 6"
    using Discriminator286_forward_sizes[OF D X(2-), of ref training] Rf X(1) by auto
  have "\<forall>n c h w. 0 \<le> val (Sigmoid_forward z) n c h w \<and> val (Sigmoid_forward z) n c h w \<le> 1"
    by (simp add: Sigmoid_forward_def sigmoid_range)
  then show ?thesis
    using z X(1) by (intro exI[of _ "Sigmoid_forward z"]) (simp add: Sigmoid_forward_def)
qed

theorem Discriminator286_forward_shape_range_witness:
  "\<exists>d y. Discriminator286_init ex_params 3 1 False ''batch'' = Inr d
     \<and> Discriminator286_forward True d ex_input ex_input = Inr y
     \<and> dimN y = 1 \<and> dimC y = 1 \<and> dimH y = 6 \<and> dimW y = 6
     \<and> (\<forall>n c h w. 0 \<le> val y n c h w \<and> val y n c h w \<le> 1)"
proof -
  obtain d where d: "Discriminator286_init ex_params 3 1 False ''batch'' = Inr d"
    using Discriminator286_init_succeeds[of "''batch''"] by blast
  show ?thesis
    using Discriminator286_forward_shape_range[OF d, of ex_input ex_input True] d by auto
qed

text \<open>
  The output is not 14 by 14: on a concrete discriminator and input it is 6 by 6.
\<close>

theorem Discriminator286_output_not_14:
  "Discriminator286_init ex_params 3 1 False ''batch'' = Inr ex_discriminator286
   \<and> Discriminator286_forward True ex_discriminator286 ex_input ex_input = Inr ex_output286
   \<and> dimH ex_output286 = 6 \<and> dimW ex_output286 = 6
   \<and> dimH ex_output286 \<noteq> 14 \<and> dimW ex_output286 \<noteq> 14"
proof -
  obtain d where d: "Discriminator286_init ex_params 3 1 False ''batch'' = Inr d"
    using Discriminator286_init_succeeds[of "''batch''"] by blast
  then have d': "ex_discriminator286 = d"
    by (simp add: ex_discriminator286_def)
  obtain z where z: "Discriminator286_forward True d ex_input ex_input = Inr (Sigmoid_forward z)"
    "dimH z = 6" "dimW z = 6"
    using Discriminator286_forward_sizes[OF d, of ex_input ex_input True] by auto
  then have o: "ex_output286 = Sigmoid_forward z"
    by (simp add: ex_output286_def d')
  show ?thesis
    using d z by (simp add: d' o Sigmoid_forward_def)
qed

section \<open>Composition of the discriminators\<close>

lemma block_shape_init:
  assumes "EncoderBlock_init ps cin cout k s pad dl g ub dn nrm da = Inr b"
  shows "block_shape b = (cin, cout, s)"
  by (simp add: block_shape_def EncoderBlock_init_Inr[OF assms])

text \<open>
  Claim C2, as the code has it. \<^verbatim>\<open>Discriminator286\<close> holds seven encoder blocks
  with the channel progression \<open>2 * in_channels\<close>, 64, 128, 256, 512, 512, 512,
  \<open>out_channels\<close>; the first five are built with stride 2 and the final two with
  stride 1.
\<close>

theorem Discriminator286_composition:
  assumes n: "nrm = ''batch'' \<or> nrm = ''instance''"
  shows "\<exists>d. Discriminator286_init ps cin cout use_bias nrm = Inr d
     \<and> map block_shape
          [Discriminator286.disc1 d, Discriminator286.disc2 d, Discriminator286.disc3 d,
           Discriminator286.disc4 d, Discriminator286.disc5 d, Discriminator286.disc6 d,
           Discriminator286.disc7 d]
        = [(cin * 2, 64, 2), (64, 128, 2), (128, 256, 2), (256, 512, 2), (512, 512, 2),
           (512, 512, 1), (512, cout, 1)]"
proof -
  obtain d where d: "Discriminator286_init ps cin cout use_bias nrm = Inr d"
    using Discriminator286_init_succeeds[OF n] by blast
  note I = Discriminator286_init_Inr[OF d]
  show ?thesis
    using d by (simp add: I[THEN block_shape_init])
qed

theorem Discriminator286_composition_witness:
  "\<exists>d. Discriminator286_init ex_params 3 1 False ''batch'' = Inr d
     \<and> map block_shape
          [Discriminator286.disc1 d, Discriminator286.disc2 d, Discriminator286.disc3 d,
           Discriminator286.disc4 d, Discriminator286.disc5 d, Discriminator286.disc6 d,
           Discriminator286.disc7 d]
        = [(6, 64, 2), (64, 128, 2), (128, 256, 2), (256, 512, 2), (512, 512, 2),
           (512, 512, 1), (512, 1, 1)]"
  using Discriminator286_composition[of "''batch''" ex_params 3 1 False] by simp

text \<open>
  The third block from the end, \<^verbatim>\<open>disc5\<close>, is built with the default stride 2,
  not with stride 1.
\<close>

theorem Discriminator286_disc5_strided:
  "Discriminator286_init ex_params 3 1 False ''batch'' = Inr ex_discriminator286
   \<and> stride (conv (Discriminator286.disc5 ex_discriminator286)) = 2
   \<and> stride (conv (Discriminator286.disc5 ex_discriminator286)) \<noteq> 1"
proof -
  obtain d where d: "Discriminator286_init ex_params 3 1 False ''batch'' = Inr d"
    using Discriminator286_init_succeeds[of "''batch''"] by blast
  then have d': "ex_discriminator286 = d"
    by (simp add: ex_discriminator286_def)
  note I = Discriminator286_init_Inr[OF d]
  show ?thesis
    using d by (simp add: d' EncoderBlock_init_Inr(1)[OF I(5)])
qed

text \<open>
  Claim C3, as the code has it. \<^verbatim>\<open>Discriminator\<close> holds five encoder blocks with
  the channel progression \<open>2 * in_channels\<close>, 64, 128, 256, 512, \<open>out_channels\<close>;
  the first three are built with stride 2 and the last two with stride 1; the first
  block has normalization and activation disabled and the last block has
  normalization disabled (the blocks between have both enabled).
\<close>

theorem Discriminator_composition:
  assumes n: "nrm = ''batch'' \<or> nrm = ''instance''"
  shows "\<exists>d. Discriminator_init ps cin cout use_bias nrm = Inr d
     \<and> map block_shape
          [Discriminator.disc1 d, Discriminator.disc2 d, Discriminator.disc3 d,
           Discriminator.disc4 d, Discriminator.disc5 d]
        = [(cin * 2, 64, 2), (64, 128, 2), (128, 256, 2), (256, 512, 1), (512, cout, 1)]
     \<and> map EncoderBlock.do_norm
          [Discriminator.disc1 d, Discriminator.disc2 d, Discriminator.disc3 d,
           Discriminator.disc4 d, Discriminator.disc5 d]
        = [False, True, True, True, False]
     \<and> map EncoderBlock.do_activation
          [Discriminator.disc1 d, Discriminator.disc2 d, Discriminator.disc3 d,
           Discriminator.disc4 d, Discriminator.disc5 d]
        = [False, True, True, True, True]"
proof -
  obtain d where d: "Discriminator_init ps cin cout use_bias nrm = Inr d"
    using Discriminator_init_succeeds[OF n] by blast
  note I = Discriminator_init_Inr[OF d]
  show ?thesis
    using d by (simp add: I[THEN block_shape_init] I[THEN EncoderBlock_init_Inr(3)]
        I[THEN EncoderBlock_init_Inr(4)])
qed

theorem Discriminator_composition_witness:
  "\<exists>d. Discriminator_init ex_params 3 1 False ''batch'' = Inr d
     \<and> map block_shape
          [Discriminator.disc1 d, Discriminator.disc2 d, Discriminator.disc3 d,
           Discriminator.disc4 d, Discriminator.disc5 d]
        = [(6, 64, 2), (64, 128, 2), (128, 256, 2), (256, 512, 1), (512, 1, 1)]"
  using Discriminator_composition[of "''batch''" ex_params 3 1 False] by auto

text \<open>
  The third block, \<^verbatim>\<open>disc3\<close>, is strided too: it is built with the default
  stride 2.
\<close>

theorem Discriminator_disc3_strided:
  "Discriminator_init ex_params 3 1 False ''batch'' = Inr ex_discriminator
   \<and> stride (conv (Discriminator.disc3 ex_discriminator)) = 2
   \<and> stride (conv (Discriminator.disc3 ex_discriminator)) \<noteq> 1"
proof -
  obtain d where d: "Discriminator_init ex_params 3 1 False ''batch'' = Inr d"
    using Discriminator_init_succeeds[of "''batch''"] by blast
  then have d': "ex_discriminator = d"
    by (simp add: ex_discriminator_def)
  note I = Discriminator_init_Inr[OF d]
  show ?thesis
    using d by (simp add: d' EncoderBlock_init_Inr(1)[OF I(3)])
qed

section \<open>The blocks: pipeline, shapes and construction errors\<close>

lemma EncoderBlock_forward_pipeline:
  assumes b: "EncoderBlock_init ps cin cout k s pad d g ub dn nrm da = Inr b"
  shows "and_then (EncoderBlock_forward training b x) (\<lambda>r. Inr (snd r))
         = pipeline (EncoderBlock_spec_stages training ps cin cout k s pad d g ub dn nrm da) x"
proof -
  note f = EncoderBlock_init_Inr[OF b]
  show ?thesis
    by (cases "Conv2d_forward (Conv2d_init (weight0 ps) (bias0 ps) cin cout k s pad d g ub)
                 (if da then pointwise (leaky_relu 0.2) x else x)")
       (auto simp: EncoderBlock_forward_def pipeline_def EncoderBlock_spec_stages_def f
          LeakyReLU_forward_def LeakyReLU_init_def and_then_def split: sum.splits)
qed

lemma DecoderBlock_forward_pipeline:
  assumes b: "DecoderBlock_init ps cin cout k s pad ub dn nrm da dprob = Inr b"
  shows "DecoderBlock_forward training b x
         = pipeline (DecoderBlock_spec_stages training ps cin cout k s pad ub dn nrm da dprob) x"
proof -
  note f = DecoderBlock_init_Inr[OF b]
  show ?thesis
    by (cases "ConvTranspose2d_forward (ConvTranspose2d_init (weight0 ps) (bias0 ps) cin cout k s pad ub)
                 (if da then pointwise relu x else x)")
       (auto simp: DecoderBlock_forward_def pipeline_def DecoderBlock_spec_stages_def f
          ReLU_forward_def and_then_def split: sum.splits)
qed

lemma conv_out_half: "2 \<le> h \<Longrightarrow> conv_out h 4 2 1 1 = h div 2"
  by (simp add: conv_out_def)

text \<open>
  Claim C7, as the code has it. An encoder block built with kernel size 4, stride 2
  and padding 1 (the other arguments of the call as written: dilation 1, one group;
  any channel counts, bias flag, activation flag and, when normalization is
  enabled, a recognized mode) maps a tensor of shape (N,Cin,H,W), H and W even and
  positive, to a tensor of shape (N,Cout,H/2,W/2), and the result is that of the
  ordered pipeline: leaky rectification with slope 0.2 when activation is enabled,
  the convolution, the normalization when enabled. This holds when the
  normalization layer, if there is one, accepts what the convolution returns: batch
  normalization in training mode needs more than one value per channel, instance
  normalization more than one spatial element.
\<close>

theorem EncoderBlock_halves:
  assumes B: "EncoderBlock_init ps cin cout 4 2 1 1 1 use_bias donorm nrm doact = Inr b"
    and X: "dimC x = cin" "even (dimH x)" "even (dimW x)" "0 < dimH x" "0 < dimW x"
    and NB: "donorm \<and> nrm = ''batch'' \<and> training
               \<longrightarrow> dimN x * (dimH x div 2) * (dimW x div 2) \<noteq> 1"
    and NI: "donorm \<and> nrm = ''instance'' \<longrightarrow> (dimH x div 2) * (dimW x div 2) \<noteq> 1"
  shows "\<exists>x' y. EncoderBlock_forward training b x = Inr (x', y)
           \<and> dimN y = dimN x \<and> dimC y = cout
           \<and> dimH y = dimH x div 2 \<and> dimW y = dimW x div 2
           \<and> pipeline (EncoderBlock_spec_stages training ps cin cout 4 2 1 1 1 use_bias donorm nrm doact) x
               = Inr y"
proof -
  note f = EncoderBlock_init_Inr[OF B]
  have h2: "2 \<le> dimH x" "2 \<le> dimW x"
    using X by (auto elim!: evenE)
  note o = conv_out_half[OF h2(1)] conv_out_half[OF h2(2)]
  have "\<exists>y. EncoderBlock_forward training b x = Inr (arg_after b x, y)
          \<and> dimN y = dimN x \<and> dimC y = out_channels (conv b)
          \<and> dimH y = conv_out (dimH x) (kernel_size (conv b)) (stride (conv b)) (padding (conv b)) (dilation (conv b))
          \<and> dimW y = conv_out (dimW x) (kernel_size (conv b)) (stride (conv b)) (padding (conv b)) (dilation (conv b))"
  proof (rule EncoderBlock_forward_ok)
    show "dimC x = in_channels (conv b)" using X by (simp add: f)
    show "conv_fits (dimH x) (kernel_size (conv b)) (stride (conv b)) (padding (conv b)) (dilation (conv b))"
      using h2 by (simp add: f conv_fits_def)
    show "conv_fits (dimW x) (kernel_size (conv b)) (stride (conv b)) (padding (conv b)) (dilation (conv b))"
      using h2 by (simp add: f conv_fits_def)
    assume "EncoderBlock.do_norm b"
    then have dn: donorm by (simp add: f)
    then have v: "nrm = ''batch'' \<or> nrm = ''instance''" by (rule f(6))
    have "norm_accepts training (norm_of ps nrm cout) (dimN x) cout (dimH x div 2) (dimW x div 2)"
      using v NB NI dn by (auto simp: norm_accepts_norm_of)
    then show "\<exists>nl. EncoderBlock.norm_attr b = Some nl \<and>
              norm_accepts training nl (dimN x) (out_channels (conv b))
                (conv_out (dimH x) (kernel_size (conv b)) (stride (conv b)) (padding (conv b)) (dilation (conv b)))
                (conv_out (dimW x) (kernel_size (conv b)) (stride (conv b)) (padding (conv b)) (dilation (conv b)))"
      using dn o by (simp add: f del: One_nat_def)
  qed
  then obtain y where y: "EncoderBlock_forward training b x = Inr (arg_after b x, y)"
    "dimN y = dimN x" "dimC y = cout" "dimH y = dimH x div 2" "dimW y = dimW x div 2"
    using o by (auto simp: f simp del: One_nat_def)
  have "pipeline (EncoderBlock_spec_stages training ps cin cout 4 2 1 1 1 use_bias donorm nrm doact) x = Inr y"
    using EncoderBlock_forward_pipeline[OF B, of training x] by (simp add: y(1))
  then show ?thesis using y by blast
qed

theorem EncoderBlock_halves_witness:
  "\<exists>b x' y. EncoderBlock_init (ex_params ''encoder'') 3 8 4 2 1 1 1 False True ''batch'' True = Inr b
     \<and> EncoderBlock_forward True b ex_input = Inr (x', y)
     \<and> dimN y = 1 \<and> dimC y = 8 \<and> dimH y = 128 \<and> dimW y = 128"
proof -
  obtain b where b: "EncoderBlock_init (ex_params ''encoder'') 3 8 4 2 1 1 1 False True ''batch'' True = Inr b"
    using EncoderBlock_init_succeeds[of True "''batch''"] by blast
  show ?thesis
    using EncoderBlock_halves[OF b, of ex_input True] b by auto
qed

text \<open>
  Without that condition the shape is not reached: on an input of shape (1,3,2,2),
  with H and W even, the convolution returns a single value per channel, and the
  block built with the defaults (normalization enabled, mode \<^verbatim>\<open>'batch'\<close>) raises
  \<^verbatim>\<open>ValueError\<close> in training mode; so does the block built with mode
  \<^verbatim>\<open>'instance'\<close>.
\<close>

theorem EncoderBlock_single_value_refused:
  "EncoderBlock_init (ex_params ''encoder'') 3 8 4 2 1 1 1 False True ''batch'' True
     = Inr ex_encoder_batch
   \<and> EncoderBlock_init (ex_params ''encoder'') 3 8 4 2 1 1 1 False True ''instance'' True
     = Inr ex_encoder_instance
   \<and> dimN ex_small_input = 1 \<and> dimC ex_small_input = 3
   \<and> dimH ex_small_input = 2 \<and> dimW ex_small_input = 2
   \<and> even (dimH ex_small_input) \<and> even (dimW ex_small_input)
   \<and> EncoderBlock_forward True ex_encoder_batch ex_small_input = Inl ValueError
   \<and> EncoderBlock_forward True ex_encoder_instance ex_small_input = Inl ValueError"
  by (simp add: ex_encoder_batch_def ex_encoder_instance_def ex_small_input_def
      EncoderBlock_init_def Let_def EncoderBlock_forward_def LeakyReLU_forward_def
      LeakyReLU_init_def Conv2d_forward_def conv_fits_def conv_out_def pointwise_def)

text \<open>
  Claim C8. A decoder block built with kernel size 4, stride 2 and padding 1 maps a
  tensor of shape (N,Cin,H,W), H and W positive, to a tensor of shape
  (N,Cout,2H,2W), and the result is that of the ordered pipeline: plain rectification
  when activation is enabled, the transposed convolution, the normalization when
  enabled, dropout exactly when the dropout probability is not zero.
\<close>

theorem DecoderBlock_doubles:
  assumes B: "DecoderBlock_init ps cin cout 4 2 1 use_bias donorm nrm doact dprob = Inr b"
    and X: "dimC x = cin" "0 < dimH x" "0 < dimW x"
  shows "\<exists>y. DecoderBlock_forward training b x = Inr y
           \<and> dimN y = dimN x \<and> dimC y = cout
           \<and> dimH y = dimH x * 2 \<and> dimW y = dimW x * 2
           \<and> pipeline (DecoderBlock_spec_stages training ps cin cout 4 2 1 use_bias donorm nrm doact dprob) x
               = Inr y"
proof -
  obtain y where y: "DecoderBlock_forward training b x = Inr y"
    "dimN y = dimN x" "dimC y = cout" "dimH y = 2 * dimH x" "dimW y = 2 * dimW x"
    using DecoderBlock_step[OF B X, of training] by blast
  have "pipeline (DecoderBlock_spec_stages training ps cin cout 4 2 1 use_bias donorm nrm doact dprob) x = Inr y"
    using DecoderBlock_forward_pipeline[OF B, of training x] by (simp add: y(1))
  then show ?thesis using y by (simp add: mult.commute)
qed

theorem DecoderBlock_doubles_witness:
  "\<exists>b y. DecoderBlock_init (ex_params ''decoder'') 3 8 4 2 1 False True ''instance'' True (1 / 2) = Inr b
     \<and> DecoderBlock_forward True b ex_input = Inr y
     \<and> dimN y = 1 \<and> dimC y = 8 \<and> dimH y = 512 \<and> dimW y = 512"
proof -
  obtain b where b: "DecoderBlock_init (ex_params ''decoder'') 3 8 4 2 1 False True ''instance'' True (1 / 2) = Inr b"
    using DecoderBlock_init_succeeds[of True "''instance''"] by blast
  show ?thesis
    using DecoderBlock_doubles[OF b, of ex_input True] b by auto
qed

text \<open>
  Claim C9. With normalization enabled, the constructor of either block raises
  \<^verbatim>\<open>NotImplementedError("norm error")\<close> for every mode other than
  \<^verbatim>\<open>'batch'\<close> and \<^verbatim>\<open>'instance'\<close>: the failure is the result of the
  constructor itself, no block and no default normalization is returned. For the
  two recognized modes the constructor returns a block holding the normalization
  layer of that mode.
\<close>

theorem norm_mode_checked_at_construction:
  "(nrm \<noteq> ''batch'' \<and> nrm \<noteq> ''instance'' \<longrightarrow>
      EncoderBlock_init ps cin cout k s pad d g use_bias True nrm doact
        = Inl (NotImplementedError ''norm error'')
    \<and> DecoderBlock_init ps cin cout k s pad use_bias True nrm doact dprob
        = Inl (NotImplementedError ''norm error''))
   \<and> (nrm = ''batch'' \<or> nrm = ''instance'' \<longrightarrow>
      (\<exists>b. EncoderBlock_init ps cin cout k s pad d g use_bias True nrm doact = Inr b
           \<and> EncoderBlock.norm_attr b = Some (norm_of ps nrm cout))
    \<and> (\<exists>b. DecoderBlock_init ps cin cout k s pad use_bias True nrm doact dprob = Inr b
           \<and> DecoderBlock.norm_attr b = Some (norm_of ps nrm cout)))"
  by (auto simp: EncoderBlock_init_def DecoderBlock_init_def norm_of_def Let_def)

theorem norm_mode_checked_at_construction_witness:
  "EncoderBlock_init (ex_params ''encoder'') 3 8 4 2 1 1 1 False True ''unsupported'' True
     = Inl (NotImplementedError ''norm error'')
   \<and> DecoderBlock_init (ex_params ''decoder'') 3 8 4 2 1 False True ''unsupported'' True 0
     = Inl (NotImplementedError ''norm error'')
   \<and> (\<exists>b. EncoderBlock_init (ex_params ''encoder'') 3 8 4 2 1 1 1 False True ''instance'' True = Inr b)
   \<and> (\<exists>b. DecoderBlock_init (ex_params ''decoder'') 3 8 4 2 1 False True ''instance'' True 0 = Inr b)"
  using norm_mode_checked_at_construction[of "''unsupported''" "ex_params ''encoder''" 3 8 4 2 1 1 1 False True]
    norm_mode_checked_at_construction[of "''unsupported''" "ex_params ''decoder''" 3 8 4 2 1 1 1 False True 0]
    norm_mode_checked_at_construction[of "''instance''" "ex_params ''encoder''" 3 8 4 2 1 1 1 False True]
    norm_mode_checked_at_construction[of "''instance''" "ex_params ''decoder''" 3 8 4 2 1 1 1 False True 0]
  by auto

text \<open>
  Claim C10. With normalization disabled, the constructor of either block returns
  a block for every mode string, the same block whatever the string; the block has
  no normalization layer, and its forward is the activation (when enabled) followed
  by the convolution (and, for a decoder, dropout when its probability is not
  zero), with no normalization.
\<close>

theorem norm_mode_ignored_without_norm:
  "(\<exists>b. EncoderBlock_init ps cin cout k s pad d g use_bias False nrm doact = Inr b
        \<and> EncoderBlock_init ps cin cout k s pad d g use_bias False nrm' doact = Inr b
        \<and> EncoderBlock.norm_attr b = None
        \<and> (\<forall>training x.
              EncoderBlock_forward training b x
              = and_then (Conv2d_forward (conv b) (if doact then pointwise (leaky_relu 0.2) x else x))
                  (\<lambda>y. Inr (if doact then pointwise (leaky_relu 0.2) x else x, y))))
   \<and> (\<exists>b. DecoderBlock_init ps cin cout k s pad use_bias False nrm doact dprob = Inr b
        \<and> DecoderBlock_init ps cin cout k s pad use_bias False nrm' doact dprob = Inr b
        \<and> DecoderBlock.norm_attr b = None
        \<and> (\<forall>training x.
              DecoderBlock_forward training b x
              = and_then (ConvTranspose2d_forward (convT b) (if doact then ReLU_forward x else x))
                  (\<lambda>y. Inr (if dprob \<noteq> 0 then Dropout2d_forward training (drop b) y else y))))"
  by (auto simp: EncoderBlock_init_def DecoderBlock_init_def Let_def EncoderBlock_forward_def
      DecoderBlock_forward_def LeakyReLU_forward_def LeakyReLU_init_def and_then_def
      split: sum.splits)

theorem norm_mode_ignored_without_norm_witness:
  "(\<exists>b. EncoderBlock_init (ex_params ''encoder'') 3 8 4 2 1 1 1 False False ''unsupported'' True = Inr b
        \<and> EncoderBlock_init (ex_params ''encoder'') 3 8 4 2 1 1 1 False False ''batch'' True = Inr b
        \<and> EncoderBlock.norm_attr b = None)
   \<and> (\<exists>b. DecoderBlock_init (ex_params ''encoder'') 3 8 4 2 1 False False ''unsupported'' True 0 = Inr b
        \<and> DecoderBlock_init (ex_params ''encoder'') 3 8 4 2 1 False False ''batch'' True 0 = Inr b
        \<and> DecoderBlock.norm_attr b = None)"
  using norm_mode_ignored_without_norm[of "ex_params ''encoder''" 3 8 4 2 1 1 1 False
      "''unsupported''" True "''batch''" 0]
  by blast

section \<open>Generator: the skip connections\<close>

lemma and_then_InrE:
  assumes "and_then r f = Inr v"
  obtains a where "r = Inr a" "f a = Inr v"
  using assms by (cases r) (auto simp: and_then_def)

lemma Generator_forward_locals_Inr:
  assumes "Generator_forward_locals tr g x = Inr L"
  obtains xa y1 y2 y3 y4 y5 y6 y7 y8 e1 e2 e3 e4 e5 e6 e7 t1 t2 t3 t4 t5 t6 t7 where
    "EncoderBlock_forward tr (encoder1 g) x = Inr (xa, y1)"
    and "EncoderBlock_forward tr (encoder2 g) y1 = Inr (e1, y2)"
    and "EncoderBlock_forward tr (encoder3 g) y2 = Inr (e2, y3)"
    and "EncoderBlock_forward tr (encoder4 g) y3 = Inr (e3, y4)"
    and "EncoderBlock_forward tr (encoder5 g) y4 = Inr (e4, y5)"
    and "EncoderBlock_forward tr (encoder6 g) y5 = Inr (e5, y6)"
    and "EncoderBlock_forward tr (encoder7 g) y6 = Inr (e6, y7)"
    and "EncoderBlock_forward tr (encoder8 g) y7 = Inr (e7, y8)"
    and "DecoderBlock_forward tr (decoder1 g) y8 = Inr t1"
    and "cat1 t1 e7 = Inr (decode1 L)"
    and "DecoderBlock_forward tr (decoder2 g) (decode1 L) = Inr t2"
    and "cat1 t2 e6 = Inr (decode2 L)"
    and "DecoderBlock_forward tr (decoder3 g) (decode2 L) = Inr t3"
    and "cat1 t3 e5 = Inr (decode3 L)"
    and "DecoderBlock_forward tr (decoder4 g) (decode3 L) = Inr t4"
    and "cat1 t4 e4 = Inr (decode4 L)"
    and "DecoderBlock_forward tr (decoder5 g) (decode4 L) = Inr t5"
    and "cat1 t5 e3 = Inr (decode5 L)"
    and "DecoderBlock_forward tr (decoder6 g) (decode5 L) = Inr t6"
    and "cat1 t6 e2 = Inr (decode6 L)"
    and "DecoderBlock_forward tr (decoder7 g) (decode6 L) = Inr t7"
    and "cat1 t7 e1 = Inr (decode7 L)"
    and "DecoderBlock_forward tr (decoder8 g) (decode7 L) = Inr (decode8 L)"
    and "Generator_locals.final L = Tanh_forward (decode8 L)"
    and "encode1 L = e1"
    and "encode2 L = e2"
    and "encode3 L = e3"
    and "encode4 L = e4"
    and "encode5 L = e5"
    and "encode6 L = e6"
    and "encode7 L = e7"
    and "encode8 L = y8"
  using assms unfolding Generator_forward_locals_def
  by (auto elim!: and_then_InrE)

lemma skip_concatI:
  assumes "cat1 t e = Inr d" "dimC t = dc" "dimC e = ec"
  shows "skip_concat t e d dc ec"
  using assms by (auto simp: skip_concat_def cat1_def split: if_splits)

lemma Conv2d_forward_Inr:
  assumes "Conv2d_forward m x = Inr y"
  shows "dimN y = dimN x" "dimC y = out_channels m" "val y = Conv2d_val m x"
  using assms by (auto simp: Conv2d_forward_def split: if_splits)

lemma ConvTranspose2d_forward_Inr:
  assumes "ConvTranspose2d_forward m x = Inr y"
  shows "dimN y = dimN x" "dimC y = out_channels m"
  using assms by (auto simp: ConvTranspose2d_forward_def split: if_splits)

lemma norm_forward_Inr:
  assumes "norm_forward training nl x = Inr y"
  shows "dimN y = dimN x" "dimC y = dimC x" "dimH y = dimH x" "dimW y = dimW x"
  using assms by (cases nl; auto split: if_splits)+

lemma EncoderBlock_forward_Inr:
  assumes b: "EncoderBlock_init ps cin cout k s pad d g ub dn nrm da = Inr b"
    and f: "EncoderBlock_forward training b x = Inr (x', y)"
  shows "x' = (if da then pointwise (leaky_relu 0.2) x else x)" "dimC y = cout"
proof -
  note i = EncoderBlock_init_Inr[OF b]
  from f obtain x2 where x2: "Conv2d_forward (conv b) (if da then pointwise (leaky_relu 0.2) x else x) = Inr x2"
    and x': "x' = (if da then pointwise (leaky_relu 0.2) x else x)"
    and y: "(if dn then norm_forward training (norm_of ps nrm cout) x2 else Inr x2) = Inr y"
    by (auto simp: EncoderBlock_forward_def i LeakyReLU_forward_def LeakyReLU_init_def
        elim!: and_then_InrE split: if_splits)
  show "x' = (if da then pointwise (leaky_relu 0.2) x else x)" by (rule x')
  have "dimC x2 = cout" using Conv2d_forward_Inr(2)[OF x2] by (simp add: i)
  then show "dimC y = cout"
    using y norm_forward_Inr(2)[of training "norm_of ps nrm cout" x2 y] by (auto split: if_splits)
qed

lemma DecoderBlock_forward_Inr:
  assumes b: "DecoderBlock_init ps cin cout k s pad ub dn nrm da dprob = Inr b"
    and f: "DecoderBlock_forward training b x = Inr y"
  shows "dimC y = cout"
proof -
  note i = DecoderBlock_init_Inr[OF b]
  from f obtain x2 x3 where x2: "ConvTranspose2d_forward (convT b) (if da then ReLU_forward x else x) = Inr x2"
    and x3: "(if dn then norm_forward training (norm_of ps nrm cout) x2 else Inr x2) = Inr x3"
    and y: "y = (if dprob \<noteq> 0 then Dropout2d_forward training (drop b) x3 else x3)"
    by (auto simp: DecoderBlock_forward_def i elim!: and_then_InrE split: if_splits)
  have "dimC x2 = cout" using ConvTranspose2d_forward_Inr(2)[OF x2] by (simp add: i)
  then have "dimC x3 = cout"
    using x3 norm_forward_Inr(2)[of training "norm_of ps nrm cout" x2 x3] by (auto split: if_splits)
  then show ?thesis by (simp add: y Dropout2d_forward_def)
qed

text \<open>
  Claim C6, as the code has it. In every run of \<^verbatim>\<open>Generator.forward\<close> that
  returns, the input of decoder stage \<open>k + 1\<close> (\<open>k\<close> = 1..7) is the concatenation
  along the channel axis of, in this order, the output of decoder stage \<open>k\<close> and
  the tensor \<^verbatim>\<open>encode\<close>\<open>(8 - k)\<close>, with the channel boundaries (decoder output
  channels, encoder output channels); the output of encoder 8 feeds decoder 1
  directly and unchanged. When it is concatenated, the tensor \<^verbatim>\<open>encode\<close>\<open>j\<close>
  (\<open>j\<close> = 1..7) no longer holds the values encoder \<open>j\<close> returned (\<open>y\<^sub>j\<close> below):
  encoder \<open>j + 1\<close> has rectified it in place, with slope 0.2.
\<close>

theorem Generator_skip_connections:
  assumes G: "Generator_init ps cin cout use_bias dprob nrm = Inr g"
    and F: "Generator_forward_locals training g x = Inr L"
  shows "\<exists>y1 y2 y3 y4 y5 y6 y7 y8 t1 t2 t3 t4 t5 t6 t7.
      EncoderBlock_forward training (encoder1 g) x = Inr (x, y1)
    \<and> EncoderBlock_forward training (encoder2 g) y1 = Inr (encode1 L, y2)
    \<and> encode1 L = pointwise (leaky_relu 0.2) y1
    \<and> EncoderBlock_forward training (encoder3 g) y2 = Inr (encode2 L, y3)
    \<and> encode2 L = pointwise (leaky_relu 0.2) y2
    \<and> EncoderBlock_forward training (encoder4 g) y3 = Inr (encode3 L, y4)
    \<and> encode3 L = pointwise (leaky_relu 0.2) y3
    \<and> EncoderBlock_forward training (encoder5 g) y4 = Inr (encode4 L, y5)
    \<and> encode4 L = pointwise (leaky_relu 0.2) y4
    \<and> EncoderBlock_forward training (encoder6 g) y5 = Inr (encode5 L, y6)
    \<and> encode5 L = pointwise (leaky_relu 0.2) y5
    \<and> EncoderBlock_forward training (encoder7 g) y6 = Inr (encode6 L, y7)
    \<and> encode6 L = pointwise (leaky_relu 0.2) y6
    \<and> EncoderBlock_forward training (encoder8 g) y7 = Inr (encode7 L, y8)
    \<and> encode7 L = pointwise (leaky_relu 0.2) y7
    \<and> encode8 L = y8
    \<and> DecoderBlock_forward training (decoder1 g) (encode8 L) = Inr t1
    \<and> skip_concat t1 (encode7 L) (decode1 L) 512 512
    \<and> DecoderBlock_forward training (decoder2 g) (decode1 L) = Inr t2
    \<and> skip_concat t2 (encode6 L) (decode2 L) 512 512
    \<and> DecoderBlock_forward training (decoder3 g) (decode2 L) = Inr t3
    \<and> skip_concat t3 (encode5 L) (decode3 L) 512 512
    \<and> DecoderBlock_forward training (decoder4 g) (decode3 L) = Inr t4
    \<and> skip_concat t4 (encode4 L) (decode4 L) 512 512
    \<and> DecoderBlock_forward training (decoder5 g) (decode4 L) = Inr t5
    \<and> skip_concat t5 (encode3 L) (decode5 L) 256 256
    \<and> DecoderBlock_forward training (decoder6 g) (decode5 L) = Inr t6
    \<and> skip_concat t6 (encode2 L) (decode6 L) 128 128
    \<and> DecoderBlock_forward training (decoder7 g) (decode6 L) = Inr t7
    \<and> skip_concat t7 (encode1 L) (decode7 L) 64 64
    \<and> DecoderBlock_forward training (decoder8 g) (decode7 L) = Inr (decode8 L)"
proof -
  from F obtain xa y1 y2 y3 y4 y5 y6 y7 y8 e1 e2 e3 e4 e5 e6 e7 t1 t2 t3 t4 t5 t6 t7 where
    a1: "EncoderBlock_forward training (encoder1 g) x = Inr (xa, y1)"
    and a2: "EncoderBlock_forward training (encoder2 g) y1 = Inr (e1, y2)"
    and a3: "EncoderBlock_forward training (encoder3 g) y2 = Inr (e2, y3)"
    and a4: "EncoderBlock_forward training (encoder4 g) y3 = Inr (e3, y4)"
    and a5: "EncoderBlock_forward training (encoder5 g) y4 = Inr (e4, y5)"
    and a6: "EncoderBlock_forward training (encoder6 g) y5 = Inr (e5, y6)"
    and a7: "EncoderBlock_forward training (encoder7 g) y6 = Inr (e6, y7)"
    and a8: "EncoderBlock_forward training (encoder8 g) y7 = Inr (e7, y8)"
    and a9: "DecoderBlock_forward training (decoder1 g) y8 = Inr t1"
    and a10: "cat1 t1 e7 = Inr (decode1 L)"
    and a11: "DecoderBlock_forward training (decoder2 g) (decode1 L) = Inr t2"
    and a12: "cat1 t2 e6 = Inr (decode2 L)"
    and a13: "DecoderBlock_forward training (decoder3 g) (decode2 L) = Inr t3"
    and a14: "cat1 t3 e5 = Inr (decode3 L)"
    and a15: "DecoderBlock_forward training (decoder4 g) (decode3 L) = Inr t4"
    and a16: "cat1 t4 e4 = Inr (decode4 L)"
    and a17: "DecoderBlock_forward training (decoder5 g) (decode4 L) = Inr t5"
    and a18: "cat1 t5 e3 = Inr (decode5 L)"
    and a19: "DecoderBlock_forward training (decoder6 g) (decode5 L) = Inr t6"
    and a20: "cat1 t6 e2 = Inr (decode6 L)"
    and a21: "DecoderBlock_forward training (decoder7 g) (decode6 L) = Inr t7"
    and a22: "cat1 t7 e1 = Inr (decode7 L)"
    and a23: "DecoderBlock_forward training (decoder8 g) (decode7 L) = Inr (decode8 L)"
    and a24: "Generator_locals.final L = Tanh_forward (decode8 L)"
    and a25: "encode1 L = e1"
    and a26: "encode2 L = e2"
    and a27: "encode3 L = e3"
    and a28: "encode4 L = e4"
    and a29: "encode5 L = e5"
    and a30: "encode6 L = e6"
    and a31: "encode7 L = e7"
    and a32: "encode8 L = y8"
    by (rule Generator_forward_locals_Inr)
  note I = Generator_init_Inr[OF G]
  have xa: "xa = x" using EncoderBlock_forward_Inr(1)[OF I(1) a1] by simp
  have e1: "e1 = pointwise (leaky_relu 0.2) y1" using EncoderBlock_forward_Inr(1)[OF I(2) a2] by simp
  have e2: "e2 = pointwise (leaky_relu 0.2) y2" using EncoderBlock_forward_Inr(1)[OF I(3) a3] by simp
  have e3: "e3 = pointwise (leaky_relu 0.2) y3" using EncoderBlock_forward_Inr(1)[OF I(4) a4] by simp
  have e4: "e4 = pointwise (leaky_relu 0.2) y4" using EncoderBlock_forward_Inr(1)[OF I(5) a5] by simp
  have e5: "e5 = pointwise (leaky_relu 0.2) y5" using EncoderBlock_forward_Inr(1)[OF I(6) a6] by simp
  have e6: "e6 = pointwise (leaky_relu 0.2) y6" using EncoderBlock_forward_Inr(1)[OF I(7) a7] by simp
  have e7: "e7 = pointwise (leaky_relu 0.2) y7" using EncoderBlock_forward_Inr(1)[OF I(8) a8] by simp
  have cy1: "dimC y1 = 64" using EncoderBlock_forward_Inr(2)[OF I(1) a1] .
  have cy2: "dimC y2 = 128" using EncoderBlock_forward_Inr(2)[OF I(2) a2] .
  have cy3: "dimC y3 = 256" using EncoderBlock_forward_Inr(2)[OF I(3) a3] .
  have cy4: "dimC y4 = 512" using EncoderBlock_forward_Inr(2)[OF I(4) a4] .
  have cy5: "dimC y5 = 512" using EncoderBlock_forward_Inr(2)[OF I(5) a5] .
  have cy6: "dimC y6 = 512" using EncoderBlock_forward_Inr(2)[OF I(6) a6] .
  have cy7: "dimC y7 = 512" using EncoderBlock_forward_Inr(2)[OF I(7) a7] .
  have ct1: "dimC t1 = 512" using DecoderBlock_forward_Inr[OF I(9) a9] .
  have ct2: "dimC t2 = 512" using DecoderBlock_forward_Inr[OF I(10) a11] .
  have ct3: "dimC t3 = 512" using DecoderBlock_forward_Inr[OF I(11) a13] .
  have ct4: "dimC t4 = 512" using DecoderBlock_forward_Inr[OF I(12) a15] .
  have ct5: "dimC t5 = 256" using DecoderBlock_forward_Inr[OF I(13) a17] .
  have ct6: "dimC t6 = 128" using DecoderBlock_forward_Inr[OF I(14) a19] .
  have ct7: "dimC t7 = 64" using DecoderBlock_forward_Inr[OF I(15) a21] .
  have s1: "skip_concat t1 (encode7 L) (decode1 L) 512 512"
    using a10 ct1 cy7 by (intro skip_concatI) (simp_all add: a31 e7)
  have s2: "skip_concat t2 (encode6 L) (decode2 L) 512 512"
    using a12 ct2 cy6 by (intro skip_concatI) (simp_all add: a30 e6)
  have s3: "skip_concat t3 (encode5 L) (decode3 L) 512 512"
    using a14 ct3 cy5 by (intro skip_concatI) (simp_all add: a29 e5)
  have s4: "skip_concat t4 (encode4 L) (decode4 L) 512 512"
    using a16 ct4 cy4 by (intro skip_concatI) (simp_all add: a28 e4)
  have s5: "skip_concat t5 (encode3 L) (decode5 L) 256 256"
    using a18 ct5 cy3 by (intro skip_concatI) (simp_all add: a27 e3)
  have s6: "skip_concat t6 (encode2 L) (decode6 L) 128 128"
    using a20 ct6 cy2 by (intro skip_concatI) (simp_all add: a26 e2)
  have s7: "skip_concat t7 (encode1 L) (decode7 L) 64 64"
    using a22 ct7 cy1 by (intro skip_concatI) (simp_all add: a25 e1)
  show ?thesis
  proof (rule exI[of _ y1], rule exI[of _ y2], rule exI[of _ y3], rule exI[of _ y4], rule exI[of _ y5], rule exI[of _ y6], rule exI[of _ y7], rule exI[of _ y8], rule exI[of _ t1], rule exI[of _ t2], rule exI[of _ t3], rule exI[of _ t4], rule exI[of _ t5], rule exI[of _ t6], rule exI[of _ t7], intro conjI)
  qed (rule a1[unfolded xa]
        a2[folded a25]
        a25[unfolded e1]
        a3[folded a26]
        a26[unfolded e2]
        a4[folded a27]
        a27[unfolded e3]
        a5[folded a28]
        a28[unfolded e4]
        a6[folded a29]
        a29[unfolded e5]
        a7[folded a30]
        a30[unfolded e6]
        a8[folded a31]
        a31[unfolded e7]
        a32
        a9[folded a32]
        s1
        a11
        s2
        a13
        s3
        a15
        s4
        a17
        s5
        a19
        s6
        a21
        s7
        a23)+
qed

text \<open>
  A concrete run: all convolution weights are -1, the input is 1 everywhere. The
  first encoder returns -27 at index (0,0,0,0) (27 of the 48 taps of the corner
  window lie inside the image); the second encoder overwrites it with
  0.2 * -27 = -5.4, and that is what the last concatenation reads.
\<close>

lemma ex_conv_value:
  "Conv2d_val (Conv2d_init (weight0 (ex_params nm)) (bias0 (ex_params nm)) 3 64 4 2 1 1 1 False)
     ex_input 0 0 0 0 = - 27"
  by (simp add: Conv2d_val_def bias_at_def padded_def ex_params_def ex_input_def upt_rec)

lemma leaky_neg: "leaky_relu 0.2 (- 27) = - 27 / 5"
  by (simp add: leaky_relu_def)

lemma EncoderBlock_forward_plain_val:
  assumes b: "EncoderBlock_init ps cin cout k s pad d g ub False nrm False = Inr b"
    and f: "EncoderBlock_forward training b x = Inr (x', y)"
  shows "val y = Conv2d_val (Conv2d_init (weight0 ps) (bias0 ps) cin cout k s pad d g ub) x"
proof -
  note i = EncoderBlock_init_Inr[OF b]
  from f have "Conv2d_forward (conv b) x = Inr y"
    by (auto simp: EncoderBlock_forward_def i elim!: and_then_InrE)
  then show ?thesis
    using Conv2d_forward_Inr(3) by (simp add: i)
qed

text \<open>
  The channel of \<^verbatim>\<open>decode7\<close> that follows the 64 decoder channels does not hold
  the value the first encoder returned.
\<close>

theorem Generator_skip_rectified_in_place:
  "Generator_init ex_params 3 3 False (1 / 2) ''batch'' = Inr ex_generator
   \<and> Generator_forward_locals True ex_generator ex_input = Inr ex_generator_locals
   \<and> EncoderBlock_forward True (encoder1 ex_generator) ex_input
       = Inr (ex_input, ex_encode1_returned)
   \<and> val ex_encode1_returned 0 0 0 0 = - 27
   \<and> val (decode7 ex_generator_locals) 0 64 0 0 = - 27 / 5
   \<and> val (decode7 ex_generator_locals) 0 64 0 0 \<noteq> val ex_encode1_returned 0 0 0 0"
proof -
  obtain g where g: "Generator_init ex_params 3 3 False (1 / 2) ''batch'' = Inr g"
    using Generator_init_succeeds[of "''batch''"] by blast
  then have g': "ex_generator = g"
    by (simp add: ex_generator_def)
  from g obtain y1 y2 y3 y4 y5 y6 y7 y8 t1 t2 t3 t4 t5 t6 t7 L
    where e1: "EncoderBlock_forward True (encoder1 g) ex_input = Inr (ex_input, y1)"
      and c7: "cat1 t7 (pointwise (leaky_relu 0.2) y1) = Inr (decode7 L)"
      and loc: "Generator_forward_locals True g ex_input = Inr L"
      and dt7: "dimC t7 = 64"
    by (rule Generator_forward_locals_trace[where tr = True and x = ex_input]) simp_all
  have L': "ex_generator_locals = L"
    by (simp add: ex_generator_locals_def g' loc)
  have y1': "ex_encode1_returned = y1"
    by (simp add: ex_encode1_returned_def g' e1)
  have v1: "val y1 0 0 0 0 = - 27"
    unfolding EncoderBlock_forward_plain_val[OF Generator_init_Inr(1)[OF g] e1]
    by (rule ex_conv_value)
  have "val (decode7 L) 0 64 0 0 = val (pointwise (leaky_relu 0.2) y1) 0 0 0 0"
    using cat1_val[OF c7, of 0 64 0 0] dt7 by simp
  then have v7: "val (decode7 L) 0 64 0 0 = - 27 / 5"
    using v1 leaky_neg by simp
  show ?thesis
    using g loc e1 v1 v7 by (simp add: g' L' y1')
qed

theorem Generator_skip_connections_witness:
  "\<exists>g L t7 y1. Generator_init ex_params 3 3 False (1 / 2) ''batch'' = Inr g
     \<and> Generator_forward_locals True g ex_input = Inr L
     \<and> DecoderBlock_forward True (decoder7 g) (decode6 L) = Inr t7
     \<and> skip_concat t7 (encode1 L) (decode7 L) 64 64
     \<and> EncoderBlock_forward True (encoder1 g) ex_input = Inr (ex_input, y1)
     \<and> encode1 L = pointwise (leaky_relu 0.2) y1"
proof -
  obtain g where g: "Generator_init ex_params 3 3 False (1 / 2) ''batch'' = Inr g"
    using Generator_init_succeeds[of "''batch''"] by blast
  from g obtain y1 y2 y3 y4 y5 y6 y7 y8 t1 t2 t3 t4 t5 t6 t7 L
    where loc: "Generator_forward_locals True g ex_input = Inr L"
    by (rule Generator_forward_locals_trace[where tr = True and x = ex_input]) simp_all
  show ?thesis
    using Generator_skip_connections[OF g loc] g loc by blast
qed

end
